theory Spec2Isabelle
  imports Complex_Main
begin

section \<open>JavaScript values and string helpers\<close>

text \<open>
  Strings are lists of 8-bit characters. A parsed JSON body is a \<open>json\<close> value; an
  object is an association list with one entry per key, looked up with \<open>map_of\<close>.
  JSON numbers are kept as integers: no handler below computes with a body number.
\<close>

datatype json =
    JNull
  | JBool bool
  | JNum int
  | JStr string
  | JArr "json list"
  | JObj "(string \<times> json) list"

text \<open>White space as \<open>String.prototype.trim\<close> and \<open>parseInt\<close> strip it, within the
  8-bit range: TAB, LF, VT, FF, CR, SP and NBSP.\<close>

definition is_space :: "char \<Rightarrow> bool" where
  "is_space c = ((of_char c :: nat) \<in> {9, 10, 11, 12, 13, 32, 160})"

definition trim :: "string \<Rightarrow> string" where
  "trim s = rev (dropWhile is_space (rev (dropWhile is_space s)))"

text \<open>\<open>s.split('/')\<close>: never the empty array, \<open>''''.split('/')\<close> is \<open>['''']\<close>.\<close>

fun split :: "char \<Rightarrow> string \<Rightarrow> string list" where
  "split c [] = [[]]"
| "split c (x # xs) =
     (if x = c then [] # split c xs
      else (case split c xs of [] \<Rightarrow> [[x]] | w # ws \<Rightarrow> (x # w) # ws))"

text \<open>\<open>s.startsWith(p)\<close>\<close>

definition startsWith :: "string \<Rightarrow> string \<Rightarrow> bool" where
  "startsWith s p = (take (length p) s = p)"

text \<open>\<open>v || d\<close> for a value that is a string or null: null and the empty string are falsy.\<close>

definition or_default :: "string option \<Rightarrow> string \<Rightarrow> string" where
  "or_default v d = (case v of None \<Rightarrow> d | Some s \<Rightarrow> if s = [] then d else s)"

text \<open>\<open>!v\<close> for a value that is a string, null or undefined.\<close>

definition falsy :: "string option \<Rightarrow> bool" where
  "falsy v = (case v of None \<Rightarrow> True | Some s \<Rightarrow> s = [])"

subsection \<open>Numbers as the pagination code sees them\<close>

text \<open>
  A number is a double. \<open>Num n\<close> is the integer \<open>n\<close> with \<open>|n| \<le> 2^53\<close>, which a double
  holds exactly. \<open>Rounded n\<close> is the double that stands for an integer \<open>n\<close> beyond that
  range (the nearest double, or an infinity); its value is not computed here.
  \<open>Inexact\<close> is the result of arithmetic on such a number and is not followed further.
  \<open>Math.max\<close> and \<open>Math.min\<close> return NaN as soon as one argument is NaN, and so does
  arithmetic.
\<close>

datatype jsnum = NaN | Num int | Rounded int | Inexact

definition Number_of :: "int \<Rightarrow> jsnum" where
  "Number_of n = (if \<bar>n\<bar> \<le> 9007199254740992 then Num n else Rounded n)"

definition is_digit :: "char \<Rightarrow> bool" where
  "is_digit c = (48 \<le> (of_char c :: nat) \<and> (of_char c :: nat) \<le> 57)"

definition digits_value :: "string \<Rightarrow> int" where
  "digits_value ds = foldl (\<lambda>acc c. 10 * acc + (int (of_char c) - 48)) 0 ds"

text \<open>\<open>parseInt(s, 10)\<close>: leading white space, a sign, then the digits there are; NaN
  when there is none.\<close>

definition parseInt :: "string \<Rightarrow> jsnum" where
  "parseInt s =
     (let t = dropWhile is_space s;
          neg = (t \<noteq> [] \<and> hd t = CHR ''-'');
          u = (if t \<noteq> [] \<and> (hd t = CHR ''-'' \<or> hd t = CHR ''+'') then tl t else t);
          ds = takeWhile is_digit u
      in if ds = [] then NaN
         else Number_of (if neg then - digits_value ds else digits_value ds))"

fun Math_max :: "jsnum \<Rightarrow> jsnum \<Rightarrow> jsnum" where
  "Math_max NaN _ = NaN"
| "Math_max _ NaN = NaN"
| "Math_max Inexact _ = Inexact"
| "Math_max _ Inexact = Inexact"
| "Math_max (Num a) (Num b) = Num (max a b)"
| "Math_max (Num a) (Rounded n) = (if 0 < n then Rounded n else Num a)"
| "Math_max (Rounded n) (Num a) = (if 0 < n then Rounded n else Num a)"
| "Math_max (Rounded m) (Rounded n) = Rounded (max m n)"

fun Math_min :: "jsnum \<Rightarrow> jsnum \<Rightarrow> jsnum" where
  "Math_min NaN _ = NaN"
| "Math_min _ NaN = NaN"
| "Math_min Inexact _ = Inexact"
| "Math_min _ Inexact = Inexact"
| "Math_min (Num a) (Num b) = Num (min a b)"
| "Math_min (Num a) (Rounded n) = (if 0 < n then Num a else Rounded n)"
| "Math_min (Rounded n) (Num a) = (if 0 < n then Num a else Rounded n)"
| "Math_min (Rounded m) (Rounded n) = Rounded (min m n)"

fun js_sub :: "jsnum \<Rightarrow> jsnum \<Rightarrow> jsnum" where
  "js_sub NaN _ = NaN"
| "js_sub _ NaN = NaN"
| "js_sub (Num a) (Num b) = Number_of (a - b)"
| "js_sub _ _ = Inexact"

fun js_mul :: "jsnum \<Rightarrow> jsnum \<Rightarrow> jsnum" where
  "js_mul NaN _ = NaN"
| "js_mul _ NaN = NaN"
| "js_mul (Num a) (Num b) = Number_of (a * b)"
| "js_mul _ _ = Inexact"

section \<open>Data model (prisma/schema.prisma)\<close>

text \<open>Times are milliseconds since the epoch. \<open>closingReason\<close> is the one nullable column.\<close>

record User =
  user_id :: string
  user_badgeId :: string
  user_name :: string
  user_password :: string
  user_isAdmin :: bool
  user_createdAt :: int
  user_updatedAt :: int

record Incident =
  incident_id :: string
  caseNumber :: string
  reportedAt :: int
  occurredAt :: int
  location :: string
  crimeType :: string
  description :: string
  status :: string
  closingReason :: "string option"
  createdAt :: int
  updatedAt :: int
  reportedById :: string

record Evidence =
  evidence_id :: string
  ev_description :: string
  ev_type :: string
  storageReference :: string
  ev_createdAt :: int
  ev_updatedAt :: int
  incidentId :: string
  addedById :: string

record db =
  users :: "User list"
  incidents :: "Incident list"
  evidence :: "Evidence list"

subsection \<open>The store operations the handlers call\<close>

definition incident_findUnique :: "db \<Rightarrow> string \<Rightarrow> Incident option" where
  "incident_findUnique d i = find (\<lambda>x. incident_id x = i) (incidents d)"

definition evidence_findUnique :: "db \<Rightarrow> string \<Rightarrow> Evidence option" where
  "evidence_findUnique d e = find (\<lambda>x. evidence_id x = e) (evidence d)"

definition user_findUnique :: "db \<Rightarrow> string \<Rightarrow> User option" where
  "user_findUnique d u = find (\<lambda>x. user_id x = u) (users d)"

text \<open>Errors the store raises, by Prisma's code: P2002 a unique constraint (with its
  target), P2003 a foreign key (with its field), P2025 a record that is not there.\<close>

datatype prisma_error = P2002 string | P2003 string | P2025


definition evidence_delete :: "db \<Rightarrow> string \<Rightarrow> prisma_error + db" where
  "evidence_delete d e =
     (if evidence_findUnique d e = None then Inl P2025
      else Inr (d\<lparr>evidence := filter (\<lambda>x. evidence_id x \<noteq> e) (evidence d)\<rparr>))"

section \<open>Requests and responses\<close>

record request =
  pathname :: string
  headers :: "string \<rightharpoonup> string"
  query :: "string \<rightharpoonup> string"
  body :: "json option"

text \<open>\<open>body = None\<close> is a payload \<open>request.json()\<close> cannot parse (it throws SyntaxError).\<close>

record pagination =
  currentPage :: int
  totalPages :: int
  totalCount :: int
  limit :: int

datatype payload =
    Message string
  | Invalid_input
  | Incident_json Incident
  | Evidence_json Evidence
  | Incident_list "Incident list" pagination
  | No_content

datatype response = Response (code: nat) (content: payload)

text \<open>The last segment of the path, as the incident handlers extract the id.\<close>

definition last_segment :: "string \<Rightarrow> string" where
  "last_segment p = last (split CHR ''/'' p)"

section \<open>Evidence: DELETE /api/incidents/[id]/evidence/[evidenceId]\<close>

definition DELETE_evidence :: "db \<Rightarrow> request \<Rightarrow> string \<Rightarrow> string \<Rightarrow> response \<times> db" where
  "DELETE_evidence d req incidentId' evidenceId =
     (if incidentId' = [] \<or> evidenceId = [] then
        (Response 400 (Message ''Incident ID and Evidence ID are required.''), d)
      else
        let loggedInUserId = headers req ''X-User-Id'';
            isAdmin = (headers req ''X-User-IsAdmin'' = Some ''true'')
        in if falsy loggedInUserId then
             (Response 401 (Message ''Authentication required.''), d)
           else
             (case evidence_findUnique d evidenceId of
                None \<Rightarrow>
                  (Response 404 (Message (''Evidence with ID '' @ evidenceId @ '' not found.'')), d)
              | Some evidenceItem \<Rightarrow>
                  if incidentId evidenceItem \<noteq> incidentId' then
                    (Response 400 (Message (''Evidence '' @ evidenceId
                        @ '' does not belong to incident '' @ incidentId' @ ''.'')), d)
                  else if \<not> isAdmin \<and> Some (addedById evidenceItem) \<noteq> loggedInUserId then
                    (Response 403 (Message
                        ''Forbidden: You are not authorized to delete this evidence.''), d)
                  else
                    (case evidence_delete d evidenceId of
                       Inr d' \<Rightarrow> (Response 204 No_content, d')
                     | Inl P2025 \<Rightarrow>
                         (Response 404
                            (Message (''Evidence with ID '' @ evidenceId @ '' not found.'')), d)
                     | Inl _ \<Rightarrow>
                         (Response 500 (Message
                            ''Failed to delete evidence due to an internal server error.''), d))))"

section \<open>Validation schemas (app/lib/schemas.ts)\<close>

text \<open>
  The validation and date libraries are not part of the repository; what the schemas need
  from them is a parameter: \<open>coerce_date\<close> is \<open>z.coerce.date()\<close> (\<open>new Date(v)\<close>, and
  \<open>None\<close> for an invalid date), \<open>is_datetime\<close> is the test of \<open>z.string().datetime()\<close>,
  \<open>new_Date\<close> is \<open>new Date(s)\<close> on a string (\<open>None\<close> for an invalid date) and
  \<open>is_cuid\<close> is the test of \<open>z.string().cuid()\<close>.
\<close>

record lib =
  coerce_date :: "json \<Rightarrow> int option"
  is_datetime :: "string \<Rightarrow> bool"
  new_Date :: "string \<Rightarrow> int option"
  is_cuid :: "string \<Rightarrow> bool"

datatype 'a parse = Issue | Parsed 'a

definition and_then :: "'a parse \<Rightarrow> ('a \<Rightarrow> 'b parse) \<Rightarrow> 'b parse" where
  "and_then p f = (case p of Issue \<Rightarrow> Issue | Parsed a \<Rightarrow> f a)"

text \<open>\<open>.optional()\<close>: an absent key is accepted and stays absent.\<close>

definition optional :: "(json \<Rightarrow> 'a parse) \<Rightarrow> json option \<Rightarrow> 'a option parse" where
  "optional p v =
     (case v of None \<Rightarrow> Parsed None
      | Some j \<Rightarrow> (case p j of Issue \<Rightarrow> Issue | Parsed a \<Rightarrow> Parsed (Some a)))"

text \<open>A required key: absent is an issue.\<close>

definition required :: "(json \<Rightarrow> 'a parse) \<Rightarrow> json option \<Rightarrow> 'a parse" where
  "required p v = (case v of None \<Rightarrow> Issue | Some j \<Rightarrow> p j)"

text \<open>\<open>z.string().trim().min(1)\<close>\<close>

definition z_string_trim_min1 :: "json \<Rightarrow> string parse" where
  "z_string_trim_min1 v =
     (case v of JStr s \<Rightarrow> (if 1 \<le> length (trim s) then Parsed (trim s) else Issue)
      | _ \<Rightarrow> Issue)"

text \<open>\<open>z.string().trim().nullable()\<close>\<close>

definition z_string_trim_nullable :: "json \<Rightarrow> string option parse" where
  "z_string_trim_nullable v =
     (case v of JNull \<Rightarrow> Parsed None | JStr s \<Rightarrow> Parsed (Some (trim s)) | _ \<Rightarrow> Issue)"

text \<open>\<open>z.enum(['Open', 'Under Investigation', 'Closed'])\<close>\<close>

definition status_values :: "string list" where
  "status_values = [''Open'', ''Under Investigation'', ''Closed'']"

definition z_enum :: "string list \<Rightarrow> json \<Rightarrow> string parse" where
  "z_enum vs v = (case v of JStr s \<Rightarrow> (if s \<in> set vs then Parsed s else Issue) | _ \<Rightarrow> Issue)"

definition z_coerce_date :: "lib \<Rightarrow> json \<Rightarrow> int parse" where
  "z_coerce_date L v = (case coerce_date L v of None \<Rightarrow> Issue | Some t \<Rightarrow> Parsed t)"

text \<open>
  The data a PATCH carries: one optional entry per mutable column; \<open>None\<close> is a key that
  is not there, and \<open>closingReason\<close> may be there with the value null (\<open>Some None\<close>).
\<close>

record IncidentUpdateData =
  upd_occurredAt :: "int option"
  upd_location :: "string option"
  upd_crimeType :: "string option"
  upd_description :: "string option"
  upd_status :: "string option"
  upd_closingReason :: "string option option"

text \<open>\<open>Object.keys(data).length\<close>\<close>

definition Object_keys_length :: "IncidentUpdateData \<Rightarrow> nat" where
  "Object_keys_length u =
     (if upd_occurredAt u = None then 0 else 1) + (if upd_location u = None then 0 else 1)
     + (if upd_crimeType u = None then 0 else 1) + (if upd_description u = None then 0 else 1)
     + (if upd_status u = None then 0 else 1) + (if upd_closingReason u = None then 0 else 1)"

text \<open>
  \<open>IncidentUpdateSchema.safeParse\<close>: the body must be an object, keys outside the schema
  are dropped, each key present must pass its own check, and the refinement asks for at
  least one key in the result.
\<close>

definition IncidentUpdateSchema :: "lib \<Rightarrow> json \<Rightarrow> IncidentUpdateData parse" where
  "IncidentUpdateSchema L b =
     (case b of
        JObj kvs \<Rightarrow>
          and_then (optional (z_coerce_date L) (map_of kvs ''occurredAt'')) (\<lambda>oa.
          and_then (optional z_string_trim_min1 (map_of kvs ''location'')) (\<lambda>lo.
          and_then (optional z_string_trim_min1 (map_of kvs ''crimeType'')) (\<lambda>ct.
          and_then (optional z_string_trim_min1 (map_of kvs ''description'')) (\<lambda>de.
          and_then (optional (z_enum status_values) (map_of kvs ''status'')) (\<lambda>st.
          and_then (optional z_string_trim_nullable (map_of kvs ''closingReason'')) (\<lambda>cr.
            let data = \<lparr>upd_occurredAt = oa, upd_location = lo, upd_crimeType = ct,
                        upd_description = de, upd_status = st, upd_closingReason = cr\<rparr>
            in if Object_keys_length data > 0 then Parsed data else Issue))))))
      | _ \<Rightarrow> Issue)"

section \<open>Incidents: GET, PATCH and DELETE /api/incidents/[id]\<close>

text \<open>\<open>incident.update\<close>: the keys of the data are written to the record with that id,
  \<open>updatedAt\<close> becomes the current time; a missing record raises P2025.\<close>

definition apply_update :: "int \<Rightarrow> IncidentUpdateData \<Rightarrow> Incident \<Rightarrow> Incident" where
  "apply_update now u x =
     x\<lparr>occurredAt := (case upd_occurredAt u of None \<Rightarrow> occurredAt x | Some t \<Rightarrow> t),
       location := (case upd_location u of None \<Rightarrow> location x | Some s \<Rightarrow> s),
       crimeType := (case upd_crimeType u of None \<Rightarrow> crimeType x | Some s \<Rightarrow> s),
       description := (case upd_description u of None \<Rightarrow> description x | Some s \<Rightarrow> s),
       status := (case upd_status u of None \<Rightarrow> status x | Some s \<Rightarrow> s),
       closingReason := (case upd_closingReason u of None \<Rightarrow> closingReason x | Some r \<Rightarrow> r),
       updatedAt := now\<rparr>"

definition incident_update ::
  "db \<Rightarrow> int \<Rightarrow> string \<Rightarrow> IncidentUpdateData \<Rightarrow> prisma_error + (Incident \<times> db)" where
  "incident_update d now i u =
     (case incident_findUnique d i of
        None \<Rightarrow> Inl P2025
      | Some x \<Rightarrow>
          Inr (apply_update now u x,
               d\<lparr>incidents :=
                    map (\<lambda>y. if incident_id y = i then apply_update now u y else y)
                      (incidents d)\<rparr>))"

text \<open>
  The update data the PATCH handler builds from the validated data: an empty closing
  reason becomes null, and a status in the patch that is not 'Closed' sets the closing
  reason to null. (\<open>occurredAt\<close> is already a date, and a date is truthy.)
\<close>

definition updateData_of :: "IncidentUpdateData \<Rightarrow> IncidentUpdateData" where
  "updateData_of validatedData =
     (let updateData = validatedData
            \<lparr>upd_closingReason :=
               (case upd_closingReason validatedData of
                  None \<Rightarrow> None
                | Some r \<Rightarrow> Some (if r = Some [] then None else r))\<rparr>
      in if \<not> falsy (upd_status validatedData) \<and> upd_status validatedData \<noteq> Some ''Closed''
         then updateData\<lparr>upd_closingReason := Some None\<rparr>
         else updateData)"

definition PATCH_incident :: "lib \<Rightarrow> int \<Rightarrow> db \<Rightarrow> request \<Rightarrow> response \<times> db" where
  "PATCH_incident L now d req =
     (let i = last_segment (pathname req) in
      if i = [] \<or> i = ''[id]'' then
        (Response 400 (Message ''Incident ID missing or invalid in URL path.''), d)
      else
        let loggedInUserId = headers req ''X-User-Id'';
            isAdmin = (headers req ''X-User-IsAdmin'' = Some ''true'')
        in if falsy loggedInUserId then (Response 401 (Message ''User ID not found.''), d)
           else
             (case incident_findUnique d i of
                None \<Rightarrow> (Response 404 (Message (''Incident '' @ i @ '' not found.'')), d)
              | Some incident \<Rightarrow>
                  if \<not> isAdmin \<and> Some (reportedById incident) \<noteq> loggedInUserId then
                    (Response 403 (Message ''Forbidden: Not authorized.''), d)
                  else
                    (case body req of
                       None \<Rightarrow> (Response 400 (Message ''Invalid JSON payload.''), d)
                     | Some b \<Rightarrow>
                         (case IncidentUpdateSchema L b of
                            Issue \<Rightarrow> (Response 400 Invalid_input, d)
                          | Parsed validatedData \<Rightarrow>
                              let updateData = updateData_of validatedData in
                              if Object_keys_length updateData = 0 then
                                (Response 400 (Message
                                   ''No valid fields provided for update after processing.''), d)
                              else
                                (case incident_update d now i updateData of
                                   Inr (updatedIncident, d') \<Rightarrow>
                                     (Response 200 (Incident_json updatedIncident), d')
                                 | Inl P2025 \<Rightarrow>
                                     (Response 404 (Message ''Incident not found.''), d)
                                 | Inl _ \<Rightarrow>
                                     (Response 500 (Message ''Failed to update incident.''), d))))))"


section \<open>Incidents: GET and POST /api/incidents\<close>

text \<open>
  What the handler leaves to the database is a parameter: \<open>contains_insensitive q v\<close>
  is the case-insensitive test that the column value \<open>v\<close> contains \<open>q\<close>,
  \<open>order_by f dir rows\<close> is the rows ordered by column \<open>f\<close> in direction \<open>dir\<close>, and
  \<open>beyond_exact req\<close> is the answer to a request whose page is so large that \<open>skip\<close> is
  no longer an integer a double holds exactly.
\<close>

record dbms =
  contains_insensitive :: "string \<Rightarrow> string \<Rightarrow> bool"
  order_by :: "string \<Rightarrow> string \<Rightarrow> Incident list \<Rightarrow> Incident list"
  beyond_exact :: "request \<Rightarrow> response"

definition allowedSortByFields :: "string list" where
  "allowedSortByFields = [''reportedAt'', ''occurredAt'', ''status'', ''crimeType'', ''location'']"

definition validatedPage_of :: "request \<Rightarrow> jsnum" where
  "validatedPage_of req = Math_max (Num 1) (parseInt (or_default (query req ''page'') ''1''))"

definition validatedLimit_of :: "request \<Rightarrow> jsnum" where
  "validatedLimit_of req =
     Math_max (Num 1) (Math_min (Num 50) (parseInt (or_default (query req ''limit'') ''10'')))"

definition skip_of :: "request \<Rightarrow> jsnum" where
  "skip_of req = js_mul (js_sub (validatedPage_of req) (Num 1)) (validatedLimit_of req)"

record whereClause =
  where_status :: "string option"
  where_OR :: "string option"

definition whereClause_of :: "request \<Rightarrow> whereClause" where
  "whereClause_of req =
     (let statusFilter = query req ''status'';
          searchQuery = query req ''searchQuery''
      in \<lparr>where_status =
            (if \<not> falsy statusFilter \<and> the statusFilter \<in> set status_values
             then statusFilter else None),
          where_OR =
            (if \<not> falsy searchQuery \<and> length (trim (the searchQuery)) > 0
             then searchQuery else None)\<rparr>)"

definition orderByClause_of :: "request \<Rightarrow> string \<times> string" where
  "orderByClause_of req =
     (let sortBy = or_default (query req ''sortBy'') ''reportedAt'';
          sortOrder = or_default (query req ''sortOrder'') ''desc''
      in if sortBy \<in> set allowedSortByFields \<and> sortOrder \<in> set [''asc'', ''desc'']
         then (sortBy, sortOrder)
         else (''reportedAt'', ''desc''))"

definition matches :: "dbms \<Rightarrow> whereClause \<Rightarrow> Incident \<Rightarrow> bool" where
  "matches S w x =
     ((case where_status w of None \<Rightarrow> True | Some s \<Rightarrow> status x = s)
      \<and> (case where_OR w of
            None \<Rightarrow> True
          | Some q \<Rightarrow>
              contains_insensitive S q (caseNumber x) \<or> contains_insensitive S q (crimeType x)
              \<or> contains_insensitive S q (location x)
              \<or> contains_insensitive S q (description x)))"

text \<open>\<open>Math.ceil(a / b)\<close> on integers with \<open>b\<close> positive.\<close>

definition Math_ceil_div :: "int \<Rightarrow> int \<Rightarrow> int" where
  "Math_ceil_div a b = - ((- a) div b)"

text \<open>
  The list handler. The store refuses a \<open>skip\<close> or \<open>take\<close> that is NaN, and the
  handler's \<open>catch\<close> answers 500 then.
\<close>

definition GET_incidents :: "dbms \<Rightarrow> db \<Rightarrow> request \<Rightarrow> response" where
  "GET_incidents S d req =
     (case (validatedPage_of req, validatedLimit_of req, skip_of req) of
        (Num validatedPage, Num validatedLimit, Num skip) \<Rightarrow>
          let rows = filter (matches S (whereClause_of req)) (incidents d);
              incidents' =
                take (nat validatedLimit)
                  (drop (nat skip)
                    (order_by S (fst (orderByClause_of req)) (snd (orderByClause_of req)) rows));
              totalCount = int (length rows);
              totalPages = Math_ceil_div totalCount validatedLimit
          in Response 200
               (Incident_list incidents'
                  \<lparr>currentPage = validatedPage, totalPages = totalPages,
                   totalCount = totalCount, limit = validatedLimit\<rparr>)
      | (validatedPage, validatedLimit, skip) \<Rightarrow>
          if validatedPage = NaN \<or> validatedLimit = NaN \<or> skip = NaN
          then Response 500 (Message ''Failed to retrieve incidents.'')
          else beyond_exact S req)"

text \<open>The creation schema of the route file (it has \<open>reportedById\<close> in the body).\<close>

record IncidentCreateData =
  new_occurredAt :: string
  new_location :: string
  new_crimeType :: string
  new_description :: string
  new_reportedById :: string
  new_status :: "string option"

definition z_string_datetime_min1 :: "lib \<Rightarrow> json \<Rightarrow> string parse" where
  "z_string_datetime_min1 L v =
     (case v of JStr s \<Rightarrow> (if is_datetime L s \<and> 1 \<le> length s then Parsed s else Issue)
      | _ \<Rightarrow> Issue)"

definition z_string_cuid :: "lib \<Rightarrow> json \<Rightarrow> string parse" where
  "z_string_cuid L v = (case v of JStr s \<Rightarrow> (if is_cuid L s then Parsed s else Issue) | _ \<Rightarrow> Issue)"

definition IncidentCreateSchema :: "lib \<Rightarrow> json \<Rightarrow> IncidentCreateData parse" where
  "IncidentCreateSchema L b =
     (case b of
        JObj kvs \<Rightarrow>
          and_then (required (z_string_datetime_min1 L) (map_of kvs ''occurredAt'')) (\<lambda>oa.
          and_then (required z_string_trim_min1 (map_of kvs ''location'')) (\<lambda>lo.
          and_then (required z_string_trim_min1 (map_of kvs ''crimeType'')) (\<lambda>ct.
          and_then (required z_string_trim_min1 (map_of kvs ''description'')) (\<lambda>de.
          and_then (required (z_string_cuid L) (map_of kvs ''reportedById'')) (\<lambda>rb.
          and_then (optional (z_enum status_values) (map_of kvs ''status'')) (\<lambda>st.
            Parsed \<lparr>new_occurredAt = oa, new_location = lo, new_crimeType = ct,
                    new_description = de, new_reportedById = rb, new_status = st\<rparr>))))))
      | _ \<Rightarrow> Issue)"

text \<open>
  \<open>incident.create\<close>: the store keeps \<open>id\<close> and \<open>caseNumber\<close> unique (P2002) and wants
  \<open>reportedById\<close> to be a user (P2003).
\<close>

definition incident_create :: "db \<Rightarrow> Incident \<Rightarrow> prisma_error + (Incident \<times> db)" where
  "incident_create d x =
     (if list_ex (\<lambda>y. incident_id y = incident_id x) (incidents d) then Inl (P2002 ''id'')
      else if list_ex (\<lambda>y. caseNumber y = caseNumber x) (incidents d)
        then Inl (P2002 ''caseNumber'')
      else if user_findUnique d (reportedById x) = None then Inl (P2003 ''reportedById'')
      else Inr (x, d\<lparr>incidents := incidents d @ [x]\<rparr>))"

text \<open>
  \<open>now\<close>, \<open>newId\<close> and \<open>newCase\<close> are the defaults the store generates for a new row: the
  time and two fresh cuids. A date the store cannot take ends in the handler's \<open>catch\<close>.
\<close>

definition POST_incident ::
  "lib \<Rightarrow> int \<Rightarrow> string \<Rightarrow> string \<Rightarrow> db \<Rightarrow> request \<Rightarrow> response \<times> db" where
  "POST_incident L now newId newCase d req =
     (case body req of
        None \<Rightarrow> (Response 400 (Message ''Invalid JSON payload.''), d)
      | Some b \<Rightarrow>
          (case IncidentCreateSchema L b of
             Issue \<Rightarrow> (Response 400 Invalid_input, d)
           | Parsed v \<Rightarrow>
               (case user_findUnique d (new_reportedById v) of
                  None \<Rightarrow>
                    (Response 400 (Message (''Reporting user with ID '' @ new_reportedById v
                        @ '' not found or invalid.'')), d)
                | Some reportingUser \<Rightarrow>
                    (case new_Date L (new_occurredAt v) of
                       None \<Rightarrow> (Response 500 (Message ''Failed to create incident.''), d)
                     | Some t \<Rightarrow>
                         (case incident_create d
                                 \<lparr>incident_id = newId, caseNumber = newCase, reportedAt = now,
                                  occurredAt = t, location = new_location v,
                                  crimeType = new_crimeType v,
                                  description = new_description v,
                                  status = or_default (new_status v) ''Open'',
                                  closingReason = None, createdAt = now, updatedAt = now,
                                  reportedById = new_reportedById v\<rparr> of
                            Inr (newIncident, d') \<Rightarrow>
                              (Response 201 (Incident_json newIncident), d')
                          | Inl (P2002 target) \<Rightarrow>
                              (Response 409
                                 (Message (''Unique constraint violation: '' @ target)), d)
                          | Inl (P2003 field_name) \<Rightarrow>
                              (Response 400
                                 (Message (''Foreign key constraint violation: '' @ field_name)), d)
                          | Inl _ \<Rightarrow>
                              (Response 500 (Message ''Failed to create incident.''), d))))))"

section \<open>Evidence: POST /api/incidents/[id]/evidence\<close>

definition evidence_types :: "string list" where
  "evidence_types =
     [''Photo'', ''Document'', ''Physical Item'', ''Statement'', ''Video'', ''Audio'', ''Other'']"

record EvidenceCreateData =
  new_ev_description :: string
  new_ev_type :: string
  new_storageReference :: string

definition EvidenceCreateSchema :: "json \<Rightarrow> EvidenceCreateData parse" where
  "EvidenceCreateSchema b =
     (case b of
        JObj kvs \<Rightarrow>
          and_then (required z_string_trim_min1 (map_of kvs ''description'')) (\<lambda>de.
          and_then (required (z_enum evidence_types) (map_of kvs ''type'')) (\<lambda>ty.
          and_then (required z_string_trim_min1 (map_of kvs ''storageReference'')) (\<lambda>sr.
            Parsed \<lparr>new_ev_description = de, new_ev_type = ty, new_storageReference = sr\<rparr>)))
      | _ \<Rightarrow> Issue)"

text \<open>\<open>evidence.create\<close>: unique \<open>id\<close>; \<open>incidentId\<close> and \<open>addedById\<close> are foreign keys.\<close>

definition evidence_create :: "db \<Rightarrow> Evidence \<Rightarrow> prisma_error + (Evidence \<times> db)" where
  "evidence_create d e =
     (if list_ex (\<lambda>y. evidence_id y = evidence_id e) (evidence d) then Inl (P2002 ''id'')
      else if incident_findUnique d (incidentId e) = None then Inl (P2003 ''incidentId'')
      else if user_findUnique d (addedById e) = None then Inl (P2003 ''addedById'')
      else Inr (e, d\<lparr>evidence := evidence d @ [e]\<rparr>))"

text \<open>The second-to-last segment of the path, when there are at least three.\<close>

definition second_to_last_segment :: "string \<Rightarrow> string option" where
  "second_to_last_segment p =
     (let segments = split CHR ''/'' p
      in if length segments \<ge> 3 then Some (segments ! (length segments - 2)) else None)"

definition POST_evidence :: "int \<Rightarrow> string \<Rightarrow> db \<Rightarrow> request \<Rightarrow> response \<times> db" where
  "POST_evidence now newId d req =
     (let incidentId' = second_to_last_segment (pathname req) in
      if falsy incidentId' \<or> incidentId' = Some ''[id]'' then
        (Response 400 (Message ''Incident ID missing or invalid in URL path.''), d)
      else
        let loggedInUserId = headers req ''X-User-Id'' in
        if falsy loggedInUserId then (Response 401 (Message ''Authentication required.''), d)
        else
          (case incident_findUnique d (the incidentId') of
             None \<Rightarrow>
               (Response 404
                  (Message (''Incident with ID '' @ the incidentId' @ '' not found.'')), d)
           | Some incidentExists \<Rightarrow>
               (case body req of
                  None \<Rightarrow> (Response 400 (Message ''Invalid JSON payload.''), d)
                | Some b \<Rightarrow>
                    (case EvidenceCreateSchema b of
                       Issue \<Rightarrow> (Response 400 Invalid_input, d)
                     | Parsed v \<Rightarrow>
                         (case evidence_create d
                                 \<lparr>evidence_id = newId, ev_description = new_ev_description v,
                                  ev_type = new_ev_type v,
                                  storageReference = new_storageReference v,
                                  ev_createdAt = now, ev_updatedAt = now,
                                  incidentId = the incidentId',
                                  addedById = the loggedInUserId\<rparr> of
                            Inr (newEvidence, d') \<Rightarrow>
                              (Response 201 (Evidence_json newEvidence), d')
                          | Inl (P2003 f) \<Rightarrow>
                              (Response 400 (Message
                                 ''Foreign key constraint violation. Ensure incident and user exist.''), d)
                          | Inl _ \<Rightarrow>
                              (Response 500 (Message
                                 ''Failed to add evidence due to an internal server error.''), d))))))"

section \<open>Users: POST /api/users\<close>

text \<open>The sign-up schema of the route file; the password is \<open>z.string().min(6)\<close>.\<close>

record CreateUserData =
  new_badgeId :: string
  new_name :: string
  new_password :: string

definition z_string_min6 :: "json \<Rightarrow> string parse" where
  "z_string_min6 v = (case v of JStr s \<Rightarrow> (if 6 \<le> length s then Parsed s else Issue) | _ \<Rightarrow> Issue)"

definition CreateUserSchema :: "json \<Rightarrow> CreateUserData parse" where
  "CreateUserSchema b =
     (case b of
        JObj kvs \<Rightarrow>
          and_then (required z_string_trim_min1 (map_of kvs ''badgeId'')) (\<lambda>bi.
          and_then (required z_string_trim_min1 (map_of kvs ''name'')) (\<lambda>na.
          and_then (required z_string_min6 (map_of kvs ''password'')) (\<lambda>pw.
            Parsed \<lparr>new_badgeId = bi, new_name = na, new_password = pw\<rparr>)))
      | _ \<Rightarrow> Issue)"

section \<open>The access gate (middleware.ts)\<close>

record TokenPayload =
  userId :: string
  badgeId :: string
  isAdmin :: bool

text \<open>
  \<open>jose.jwtVerify<TokenPayload>(token, secretKey, {algorithms: ['HS256']})\<close> is a
  parameter: it gives the payload, or the \<open>code\<close> of the error it throws (\<open>None\<close>
  for an error without one). The payload has the three claims of the declared type,
  which is what the login route signs.
\<close>

type_synonym verifier = "string \<Rightarrow> string \<Rightarrow> string option + TokenPayload"

datatype gate = Reply response | Next "string \<rightharpoonup> string"

text \<open>\<open>String(b)\<close> for a boolean.\<close>

definition String_of_bool :: "bool \<Rightarrow> string" where
  "String_of_bool b = (if b then ''true'' else ''false'')"

definition verification_message :: "string option \<Rightarrow> string" where
  "verification_message error_code =
     (if error_code = Some ''ERR_JWT_EXPIRED'' then ''Token has expired.''
      else if (case error_code of None \<Rightarrow> False | Some c \<Rightarrow> startsWith c ''ERR_JWT'')
        then ''Invalid token (verification failed).''
      else if error_code = Some ''ERR_JOSE_GENERIC'' then ''Token processing failed.''
      else ''Invalid or expired token.'')"

text \<open>The payload the login route signs for a user (app/api/auth/login/route.ts).\<close>

definition login_payload :: "User \<Rightarrow> TokenPayload" where
  "login_payload user =
     \<lparr>userId = user_id user, badgeId = user_badgeId user, isAdmin = user_isAdmin user\<rparr>"

text \<open>
  \<open>Headers.set(name, value)\<close> strips the HTTP blanks (TAB, LF, CR, SP) from both ends of
  the value and throws a TypeError when NUL, LF or CR is left in it: \<open>None\<close> here. The
  value is kept as it is written: the blanks that would be stripped are not there in a
  cuid, in a badge id (trimmed at sign-up) or in \<open>true\<close> and \<open>false\<close>.
\<close>

definition HTTP_whitespace :: "char \<Rightarrow> bool" where
  "HTTP_whitespace c = ((of_char c :: nat) \<in> {9, 10, 13, 32})"

definition normalize_value :: "string \<Rightarrow> string" where
  "normalize_value v = rev (dropWhile HTTP_whitespace (rev (dropWhile HTTP_whitespace v)))"

definition header_value :: "string \<Rightarrow> bool" where
  "header_value v = (\<not> list_ex (\<lambda>c. (of_char c :: nat) \<in> {0, 10, 13}) (normalize_value v))"

definition Headers_set ::
  "(string \<rightharpoonup> string) \<Rightarrow> string \<Rightarrow> string \<Rightarrow> (string \<rightharpoonup> string) option" where
  "Headers_set hs name v = (if header_value v then Some (hs(name \<mapsto> v)) else None)"

text \<open>
  The gate takes the configured \<open>JWT_SECRET\<close>, the module's cached \<open>secretKey\<close> and the
  request headers, and returns its answer with the cache. The encoded key is the
  secret's bytes. The three header writes are inside the \<open>try\<close>: when one throws, the
  \<open>catch\<close> sees an error without a \<open>code\<close>.
\<close>

definition catch_error :: "string option \<Rightarrow> gate" where
  "catch_error error_code = Reply (Response 401 (Message (verification_message error_code)))"

definition bearer_token :: "(string \<rightharpoonup> string) \<Rightarrow> string option" where
  "bearer_token requestHeaders =
     (let authHeader = requestHeaders ''Authorization''
      in if \<not> falsy authHeader \<and> startsWith (the authHeader) ''Bearer ''
         then Some (drop 7 (the authHeader)) else None)"

definition middleware ::
  "verifier \<Rightarrow> string option \<Rightarrow> string option \<Rightarrow> (string \<rightharpoonup> string) \<Rightarrow> gate \<times> string option" where
  "middleware jwtVerify JWT_SECRET secretKey0 requestHeaders =
     (let secretKey = (if secretKey0 = None \<and> \<not> falsy JWT_SECRET then JWT_SECRET else secretKey0);
          token = bearer_token requestHeaders
      in if falsy token then
           (Reply (Response 401 (Message ''Authentication required.'')), secretKey)
         else
           (case secretKey of
              None \<Rightarrow>
                (Reply (Response 500 (Message ''Internal server configuration error.'')), secretKey)
            | Some key \<Rightarrow>
                (case jwtVerify (the token) key of
                   Inr payload \<Rightarrow>
                     (case Headers_set requestHeaders ''X-User-Id'' (userId payload) of
                        None \<Rightarrow> (catch_error None, secretKey)
                      | Some h1 \<Rightarrow>
                          (case Headers_set h1 ''X-User-BadgeId'' (badgeId payload) of
                             None \<Rightarrow> (catch_error None, secretKey)
                           | Some h2 \<Rightarrow>
                               (case Headers_set h2 ''X-User-IsAdmin''
                                       (String_of_bool (isAdmin payload)) of
                                  None \<Rightarrow> (catch_error None, secretKey)
                                | Some h3 \<Rightarrow> (Next h3, secretKey))))
                 | Inl error_code \<Rightarrow> (catch_error error_code, secretKey))))"

section \<open>Concrete inputs\<close>

text \<open>A small store, three callers and a stand-in for each library, to run the handlers on.\<close>

definition sample_lib :: lib where
  "sample_lib =
     \<lparr>coerce_date = (\<lambda>v. case v of JNum n \<Rightarrow> Some n | _ \<Rightarrow> None),
      is_datetime = (\<lambda>s. s = ''2025-04-20T10:00:00Z''),
      new_Date = (\<lambda>s. if s = ''2025-04-20T10:00:00Z'' then Some 1745143200000 else None),
      is_cuid = (\<lambda>s. 9 \<le> length s \<and> take 1 s = ''c'')\<rparr>"

definition sample_dbms :: dbms where
  "sample_dbms =
     \<lparr>contains_insensitive = (\<lambda>q v. q = v),
      order_by = (\<lambda>f dir rows. if dir = ''asc'' then rows else rev rows),
      beyond_exact = (\<lambda>req. Response 500 (Message ''Failed to retrieve incidents.''))\<rparr>"

definition officer_a :: TokenPayload where
  "officer_a = \<lparr>userId = ''cofficera1'', badgeId = ''OFFICER123'', isAdmin = False\<rparr>"

definition officer_b :: TokenPayload where
  "officer_b = \<lparr>userId = ''cofficerb1'', badgeId = ''OFFICER456'', isAdmin = False\<rparr>"

definition admin_c :: TokenPayload where
  "admin_c = \<lparr>userId = ''cadminccc1'', badgeId = ''ADMIN001'', isAdmin = True\<rparr>"

definition user_of :: "TokenPayload \<Rightarrow> User" where
  "user_of p =
     \<lparr>user_id = userId p, user_badgeId = badgeId p, user_name = badgeId p,
      user_password = ''$2a$10$hash'', user_isAdmin = isAdmin p,
      user_createdAt = 0, user_updatedAt = 0\<rparr>"

definition incident_1 :: Incident where
  "incident_1 =
     \<lparr>incident_id = ''cincident1'', caseNumber = ''ccasenum01'', reportedAt = 1000,
      occurredAt = 900, location = ''RTC Bus Stand Complex, Guntur'',
      crimeType = ''Pickpocketing (Bus Stand)'', description = ''Wallet taken from a bag'',
      status = ''Open'', closingReason = None, createdAt = 1000, updatedAt = 1000,
      reportedById = ''cofficera1''\<rparr>"

definition evidence_1 :: Evidence where
  "evidence_1 =
     \<lparr>evidence_id = ''cevidence1'', ev_description = ''CCTV still'', ev_type = ''Photo'',
      storageReference = ''locker-12'', ev_createdAt = 2000, ev_updatedAt = 2000,
      incidentId = ''cincident1'', addedById = ''cofficerb1''\<rparr>"

definition sample_db :: db where
  "sample_db =
     \<lparr>users = [user_of officer_a, user_of officer_b, user_of admin_c],
      incidents = [incident_1], evidence = [evidence_1]\<rparr>"

text \<open>The token of caller \<open>p\<close> in the examples, and the headers a request with that
  token carries after the gate let it through.\<close>

definition token_of :: "TokenPayload \<Rightarrow> string" where
  "token_of p = ''token-'' @ userId p"

definition headers_for :: "TokenPayload \<Rightarrow> (string \<rightharpoonup> string)" where
  "headers_for p =
     [''Authorization'' \<mapsto> ''Bearer '' @ token_of p]
       (''X-User-Id'' \<mapsto> userId p, ''X-User-BadgeId'' \<mapsto> badgeId p,
        ''X-User-IsAdmin'' \<mapsto> String_of_bool (isAdmin p))"

definition request_by :: "TokenPayload \<Rightarrow> string \<Rightarrow> json option \<Rightarrow> request" where
  "request_by p path b =
     \<lparr>pathname = path, headers = headers_for p, query = Map.empty, body = b\<rparr>"

definition list_request :: "(string \<times> string) list \<Rightarrow> request" where
  "list_request q =
     \<lparr>pathname = ''/api/incidents'', headers = headers_for officer_a,
      query = map_of q, body = None\<rparr>"

text \<open>A user whose badge id has a line break inside, and what the sign-up route is sent
  to create it.\<close>

definition officer_n :: User where
  "officer_n =
     \<lparr>user_id = ''cofficern1'', user_badgeId = [CHR ''K'', CHR 0x0A, CHR ''9''],
      user_name = ''Officer N'', user_password = ''$2a$10$hash'', user_isAdmin = False,
      user_createdAt = 0, user_updatedAt = 0\<rparr>"

definition sample_signup :: json where
  "sample_signup =
     JObj [(''badgeId'', JStr [CHR ''K'', CHR 0x0A, CHR ''9'']), (''name'', JStr ''Officer N''),
           (''password'', JStr ''secret1'')]"

definition sample_jwtVerify :: verifier where
  "sample_jwtVerify token key =
     (if key \<noteq> ''s3cret'' then Inl (Some ''ERR_JWS_SIGNATURE_VERIFICATION_FAILED'')
      else if token = token_of officer_a then Inr officer_a
      else if token = token_of officer_b then Inr officer_b
      else if token = token_of admin_c then Inr admin_c
      else if token = token_of (login_payload officer_n) then Inr (login_payload officer_n)
      else if token = ''token-old'' then Inl (Some ''ERR_JWT_EXPIRED'')
      else Inl (Some ''ERR_JWS_INVALID''))"

definition sample_report :: json where
  "sample_report =
     JObj [(''occurredAt'', JStr ''2025-04-20T10:00:00Z''),
           (''location'', JStr ''Market Center, Old Guntur''),
           (''crimeType'', JStr ''Vandalism (Graffiti)''),
           (''description'', JStr ''Paint on the east wall''),
           (''reportedById'', JStr ''cofficerb1'')]"

definition incident_2 :: Incident where
  "incident_2 =
     \<lparr>incident_id = ''cincident2'', caseNumber = ''ccasenum02'', reportedAt = 7000,
      occurredAt = 1745143200000, location = ''Market Center, Old Guntur'',
      crimeType = ''Vandalism (Graffiti)'', description = ''Paint on the east wall'',
      status = ''Open'', closingReason = None, createdAt = 7000, updatedAt = 7000,
      reportedById = ''cofficerb1''\<rparr>"

definition sample_exhibit :: json where
  "sample_exhibit =
     JObj [(''description'', JStr ''Paint sample''), (''type'', JStr ''Physical Item''),
           (''storageReference'', JStr ''bag-7''), (''addedById'', JStr ''cadminccc1'')]"

definition evidence_2 :: Evidence where
  "evidence_2 =
     \<lparr>evidence_id = ''cevidence2'', ev_description = ''Paint sample'',
      ev_type = ''Physical Item'', storageReference = ''bag-7'', ev_createdAt = 8000,
      ev_updatedAt = 8000, incidentId = ''cincident1'', addedById = ''cofficera1''\<rparr>"

section \<open>Helper facts\<close>

lemma falsy_simps [simp]: "falsy None" "falsy (Some s) = (s = [])"
  by (simp_all add: falsy_def)

lemma String_of_bool_true [simp]: "(String_of_bool b = ''true'') = b"
  by (simp add: String_of_bool_def)

lemma find_filter_neq: "find (\<lambda>x. f x = k) (filter (\<lambda>x. f x \<noteq> k) xs) = None"
  by (induction xs) auto

lemma and_then_Parsed: "(and_then p f = Parsed r) = (\<exists>a. p = Parsed a \<and> f a = Parsed r)"
  by (cases p) (simp_all add: and_then_def)

lemma optional_None [simp]: "optional p None = Parsed None"
  by (simp add: optional_def)

lemma optional_Parsed_None: "optional p v = Parsed None \<Longrightarrow> v = None"
  by (auto simp add: optional_def split: option.splits parse.splits)

lemma optional_Parsed_Some: "optional p v = Parsed (Some a) \<Longrightarrow> \<exists>j. v = Some j \<and> p j = Parsed a"
  by (auto simp add: optional_def split: option.splits parse.splits)

lemma z_enum_Parsed: "z_enum vs j = Parsed s \<Longrightarrow> j = JStr s \<and> s \<in> set vs"
  by (auto simp add: z_enum_def split: json.splits if_splits)

lemma IncidentUpdateSchema_Parsed:
  assumes "IncidentUpdateSchema L b = Parsed v"
  shows "\<exists>kvs. b = JObj kvs
     \<and> optional (z_coerce_date L) (map_of kvs ''occurredAt'') = Parsed (upd_occurredAt v)
     \<and> optional z_string_trim_min1 (map_of kvs ''location'') = Parsed (upd_location v)
     \<and> optional z_string_trim_min1 (map_of kvs ''crimeType'') = Parsed (upd_crimeType v)
     \<and> optional z_string_trim_min1 (map_of kvs ''description'') = Parsed (upd_description v)
     \<and> optional (z_enum status_values) (map_of kvs ''status'') = Parsed (upd_status v)
     \<and> optional z_string_trim_nullable (map_of kvs ''closingReason'') = Parsed (upd_closingReason v)
     \<and> Object_keys_length v > 0"
proof (cases b)
  case (JObj kvs)
  with assms show ?thesis
    unfolding IncidentUpdateSchema_def
    by (auto simp add: and_then_Parsed Let_def split: if_splits)
qed (use assms in \<open>simp_all add: IncidentUpdateSchema_def\<close>)

lemma incident_update_found:
  "incident_findUnique d i = Some x \<Longrightarrow>
   incident_update d now i u =
     Inr (apply_update now u x,
          d\<lparr>incidents := map (\<lambda>y. if incident_id y = i then apply_update now u y else y) (incidents d)\<rparr>)"
  by (simp add: incident_update_def)


lemma evidence_delete_found:
  "evidence_findUnique d e = Some x \<Longrightarrow>
   evidence_delete d e = Inr (d\<lparr>evidence := filter (\<lambda>y. evidence_id y \<noteq> e) (evidence d)\<rparr>)"
  by (simp add: evidence_delete_def)


lemma PATCH_incident_allowed:
  assumes "headers req ''X-User-Id'' = Some uid" and "uid \<noteq> []"
    and "last_segment (pathname req) \<noteq> []" and "last_segment (pathname req) \<noteq> ''[id]''"
    and "incident_findUnique d (last_segment (pathname req)) = Some inc"
    and "headers req ''X-User-IsAdmin'' = Some ''true'' \<or> reportedById inc = uid"
  shows "PATCH_incident L now d req =
     (case body req of
        None \<Rightarrow> (Response 400 (Message ''Invalid JSON payload.''), d)
      | Some b \<Rightarrow>
          (case IncidentUpdateSchema L b of
             Issue \<Rightarrow> (Response 400 Invalid_input, d)
           | Parsed validatedData \<Rightarrow>
               if Object_keys_length (updateData_of validatedData) = 0 then
                 (Response 400 (Message ''No valid fields provided for update after processing.''), d)
               else
                 (Response 200 (Incident_json (apply_update now (updateData_of validatedData) inc)),
                  d\<lparr>incidents :=
                       map (\<lambda>y. if incident_id y = last_segment (pathname req)
                                then apply_update now (updateData_of validatedData) y else y)
                         (incidents d)\<rparr>)))"
  using assms
  by (auto simp add: PATCH_incident_def Let_def incident_update_found split: option.splits parse.splits)

lemma PATCH_incident_200:
  assumes "PATCH_incident L now d req = (Response 200 pl, d')"
  shows "\<exists>inc v. incident_findUnique d (last_segment (pathname req)) = Some inc
     \<and> (\<exists>b. body req = Some b \<and> IncidentUpdateSchema L b = Parsed v)
     \<and> pl = Incident_json (apply_update now (updateData_of v) inc)
     \<and> d' = d\<lparr>incidents :=
                 map (\<lambda>y. if incident_id y = last_segment (pathname req)
                          then apply_update now (updateData_of v) y else y) (incidents d)\<rparr>"
  using assms
  by (auto simp add: PATCH_incident_def Let_def incident_update_def
      split: option.splits parse.splits if_splits sum.splits prisma_error.splits)

lemma find_map_update:
  "find (\<lambda>x. incident_id x = i) xs = Some x \<Longrightarrow> (\<And>y. incident_id (g y) = incident_id y) \<Longrightarrow>
   find (\<lambda>x. incident_id x = i) (map (\<lambda>y. if incident_id y = i then g y else y) xs) = Some (g x)"
  by (induction xs) (auto split: if_splits)

lemma incident_id_apply_update [simp]: "incident_id (apply_update now u x) = incident_id x"
  by (simp add: apply_update_def)

lemma reportedById_apply_update [simp]: "reportedById (apply_update now u x) = reportedById x"
  by (simp add: apply_update_def)

lemma PATCH_incident_200_stored:
  assumes "PATCH_incident L now d req = (Response 200 pl, d')"
  shows "\<exists>inc v b. incident_findUnique d (last_segment (pathname req)) = Some inc
     \<and> body req = Some b \<and> IncidentUpdateSchema L b = Parsed v
     \<and> pl = Incident_json (apply_update now (updateData_of v) inc)
     \<and> incident_findUnique d' (last_segment (pathname req))
         = Some (apply_update now (updateData_of v) inc)"
proof -
  from PATCH_incident_200 [OF assms] obtain inc v b where
    *: "incident_findUnique d (last_segment (pathname req)) = Some inc"
       "body req = Some b" "IncidentUpdateSchema L b = Parsed v"
       "pl = Incident_json (apply_update now (updateData_of v) inc)"
       "d' = d\<lparr>incidents :=
                 map (\<lambda>y. if incident_id y = last_segment (pathname req)
                          then apply_update now (updateData_of v) y else y) (incidents d)\<rparr>"
    by blast
  from *(1) have "incident_findUnique d' (last_segment (pathname req))
      = Some (apply_update now (updateData_of v) inc)"
    unfolding *(5) incident_findUnique_def
    by (simp add: find_map_update)
  with * show ?thesis by blast
qed

lemma closingReason_apply_update:
  "closingReason (apply_update now u x) =
     (case upd_closingReason u of None \<Rightarrow> closingReason x | Some r \<Rightarrow> r)"
  by (simp add: apply_update_def)

lemma status_apply_update:
  "status (apply_update now u x) = (case upd_status u of None \<Rightarrow> status x | Some s \<Rightarrow> s)"
  by (simp add: apply_update_def)

lemma upd_status_updateData_of [simp]: "upd_status (updateData_of v) = upd_status v"
  by (simp add: updateData_of_def Let_def)

lemma z_string_trim_nullable_Parsed:
  "z_string_trim_nullable j = Parsed r \<Longrightarrow>
     (j = JNull \<and> r = None) \<or> (\<exists>s. j = JStr s \<and> r = Some (trim s))"
  by (auto simp add: z_string_trim_nullable_def split: json.splits)

lemma optional_Some_Parsed:
  "optional p (Some j) = Parsed r \<Longrightarrow> \<exists>a. r = Some a \<and> p j = Parsed a"
  by (auto simp add: optional_def split: parse.splits)

lemma status_values_nonempty: "s \<in> set status_values \<Longrightarrow> s \<noteq> []"
  by (auto simp add: status_values_def)

lemma Object_keys_updateData_of:
  "Object_keys_length v \<le> Object_keys_length (updateData_of v)"
  by (auto simp add: Object_keys_length_def updateData_of_def Let_def split: option.splits)

lemma IncidentUpdateSchema_no_fields:
  assumes "\<forall>k \<in> set [''occurredAt'', ''location'', ''crimeType'', ''description'', ''status'',
              ''closingReason'']. map_of kvs k = None"
  shows "IncidentUpdateSchema L (JObj kvs) = Issue"
  using assms by (simp add: IncidentUpdateSchema_def and_then_def Object_keys_length_def)

lemma required_Parsed: "required p v = Parsed a \<Longrightarrow> \<exists>j. v = Some j \<and> p j = Parsed a"
  by (auto simp add: required_def split: option.splits)

lemma IncidentCreateSchema_Parsed:
  assumes "IncidentCreateSchema L b = Parsed v"
  shows "\<exists>kvs. b = JObj kvs
     \<and> required (z_string_cuid L) (map_of kvs ''reportedById'') = Parsed (new_reportedById v)
     \<and> optional (z_enum status_values) (map_of kvs ''status'') = Parsed (new_status v)"
proof (cases b)
  case (JObj kvs)
  with assms show ?thesis
    unfolding IncidentCreateSchema_def
    by (auto simp add: and_then_Parsed)
qed (use assms in \<open>simp_all add: IncidentCreateSchema_def\<close>)

lemma incident_create_Inr:
  "incident_create d x = Inr (y, d') \<Longrightarrow> y = x \<and> d' = d\<lparr>incidents := incidents d @ [x]\<rparr>
     \<and> user_findUnique d (reportedById x) \<noteq> None"
  by (auto simp add: incident_create_def split: if_splits)

lemma POST_incident_201:
  assumes "POST_incident L now newId newCase d req = (Response 201 pl, d')"
  shows "\<exists>b v x. body req = Some b \<and> IncidentCreateSchema L b = Parsed v
     \<and> pl = Incident_json x \<and> d' = d\<lparr>incidents := incidents d @ [x]\<rparr>
     \<and> incident_id x = newId \<and> caseNumber x = newCase
     \<and> reportedById x = new_reportedById v
     \<and> status x = or_default (new_status v) ''Open''
     \<and> closingReason x = None
     \<and> user_findUnique d (new_reportedById v) \<noteq> None"
  using assms
  by (auto simp add: POST_incident_def
      split: option.splits parse.splits sum.splits prisma_error.splits
      dest!: incident_create_Inr)

lemma POST_incident_store:
  "snd (POST_incident L now newId newCase d req) = d
   \<or> (\<exists>pl. POST_incident L now newId newCase d req = (Response 201 pl, snd (POST_incident L now newId newCase d req)))"
  by (auto simp add: POST_incident_def
      split: option.splits parse.splits sum.splits prisma_error.splits)

lemma PATCH_incident_store:
  "snd (PATCH_incident L now d req) = d
   \<or> (\<exists>pl. PATCH_incident L now d req = (Response 200 pl, snd (PATCH_incident L now d req)))"
  by (auto simp add: PATCH_incident_def Let_def
      split: option.splits parse.splits sum.splits prisma_error.splits)

lemma PATCH_incident_codes:
  "code (fst (PATCH_incident L now d req)) \<in> {200, 400, 401, 403, 404, 500}"
  by (auto simp add: PATCH_incident_def Let_def
      split: option.splits parse.splits sum.splits prisma_error.splits)

lemma or_default_status:
  "optional (z_enum status_values) j = Parsed st \<Longrightarrow> or_default st ''Open'' \<in> set status_values"
  by (auto simp add: optional_def z_enum_def or_default_def status_values_def
      split: option.splits json.splits if_splits)

lemma optional_z_enum_invalid:
  "j \<notin> JStr ` set vs \<Longrightarrow> optional (z_enum vs) (Some j) = Issue"
  by (auto simp add: optional_def z_enum_def split: json.splits)

lemma IncidentCreateSchema_bad_status:
  assumes "map_of kvs ''status'' = Some j" and "j \<notin> JStr ` set status_values"
  shows "IncidentCreateSchema L (JObj kvs) = Issue"
  using assms optional_z_enum_invalid [of j status_values]
  by (simp add: IncidentCreateSchema_def and_then_def split: parse.splits)

lemma IncidentUpdateSchema_bad_status:
  assumes "map_of kvs ''status'' = Some j" and "j \<notin> JStr ` set status_values"
  shows "IncidentUpdateSchema L (JObj kvs) = Issue"
  using assms optional_z_enum_invalid [of j status_values]
  by (simp add: IncidentUpdateSchema_def and_then_def split: parse.splits)

lemma PATCH_incident_Issue:
  assumes "body req = Some b" and "IncidentUpdateSchema L b = Issue"
  shows "code (fst (PATCH_incident L now d req)) \<in> {400, 401, 403, 404}
     \<and> snd (PATCH_incident L now d req) = d"
  using assms
  by (auto simp add: PATCH_incident_def Let_def split: option.splits)

lemma status_after_update:
  assumes "IncidentUpdateSchema L b = Parsed v" and "status x \<in> set status_values"
  shows "status (apply_update now (updateData_of v) x) \<in> set status_values"
proof -
  from IncidentUpdateSchema_Parsed [OF assms(1)] obtain kvs where
    "optional (z_enum status_values) (map_of kvs ''status'') = Parsed (upd_status v)"
    by blast
  then have "upd_status v = None \<or> (\<exists>s. upd_status v = Some s \<and> s \<in> set status_values)"
    by (auto simp add: optional_def z_enum_def split: option.splits json.splits if_splits)
  with assms(2) show ?thesis
    by (auto simp add: status_apply_update)
qed

lemma z_string_cuid_Parsed: "z_string_cuid L j = Parsed s \<Longrightarrow> j = JStr s \<and> is_cuid L s"
  by (auto simp add: z_string_cuid_def split: json.splits if_splits)

lemma PATCH_incident_reportedById:
  "map reportedById (incidents (snd (PATCH_incident L now d req))) = map reportedById (incidents d)"
proof -
  from PATCH_incident_store [of L now d req] show ?thesis
  proof
    assume "snd (PATCH_incident L now d req) = d"
    then show ?thesis by simp
  next
    assume "\<exists>pl. PATCH_incident L now d req = (Response 200 pl, snd (PATCH_incident L now d req))"
    then obtain pl where
      "PATCH_incident L now d req = (Response 200 pl, snd (PATCH_incident L now d req))" ..
    from PATCH_incident_200 [OF this] obtain v where
      "snd (PATCH_incident L now d req) = d\<lparr>incidents :=
                 map (\<lambda>y. if incident_id y = last_segment (pathname req)
                          then apply_update now (updateData_of v) y else y) (incidents d)\<rparr>"
      by blast
    then show ?thesis by (simp add: comp_def if_distrib cong: if_cong)
  qed
qed

lemma POST_incident_reporter:
  assumes ok: "POST_incident L now newId newCase d req = (Response 201 pl, d')"
  shows "\<exists>kvs x. body req = Some (JObj kvs)
         \<and> map_of kvs ''reportedById'' = Some (JStr (reportedById x))
         \<and> user_findUnique d (reportedById x) \<noteq> None
         \<and> pl = Incident_json x \<and> incidents d' = incidents d @ [x]"
proof -
  from POST_incident_201 [OF ok] obtain b v x where
    *: "body req = Some b" "IncidentCreateSchema L b = Parsed v" "pl = Incident_json x"
       "d' = d\<lparr>incidents := incidents d @ [x]\<rparr>" "reportedById x = new_reportedById v"
       "user_findUnique d (new_reportedById v) \<noteq> None"
    by blast
  from IncidentCreateSchema_Parsed [OF *(2)] obtain kvs where
    kvs: "b = JObj kvs"
      "required (z_string_cuid L) (map_of kvs ''reportedById'') = Parsed (new_reportedById v)"
    by blast
  from required_Parsed [OF kvs(2)] z_string_cuid_Parsed
  have "map_of kvs ''reportedById'' = Some (JStr (new_reportedById v))" by blast
  with * kvs show ?thesis by auto
qed

lemma evidence_create_Inr:
  "evidence_create d e = Inr (y, d') \<Longrightarrow> y = e \<and> d' = d\<lparr>evidence := evidence d @ [e]\<rparr>"
  by (auto simp add: evidence_create_def split: if_splits)

lemma POST_evidence_201:
  assumes "POST_evidence now newId d req = (Response 201 pl, d')"
  shows "\<exists>e. pl = Evidence_json e \<and> evidence d' = evidence d @ [e]
     \<and> headers req ''X-User-Id'' = Some (addedById e) \<and> addedById e \<noteq> []
     \<and> second_to_last_segment (pathname req) = Some (incidentId e)"
  using assms
  by (auto simp add: POST_evidence_def Let_def falsy_def
      split: option.splits parse.splits sum.splits prisma_error.splits if_splits
      dest!: evidence_create_Inr)

lemma startsWith_iff: "startsWith a p = (\<exists>t. a = p @ t)"
  unfolding startsWith_def by (metis append_take_drop_id append_eq_conv_conj)

lemma bearer_token_Some:
  "(bearer_token hs = Some tok \<and> tok \<noteq> [])
     = (hs ''Authorization'' = Some (''Bearer '' @ tok) \<and> tok \<noteq> [])"
proof (cases "hs ''Authorization''")
  case None
  then show ?thesis by (simp add: bearer_token_def)
next
  case (Some a)
  show ?thesis
  proof (cases "startsWith a ''Bearer ''")
    case True
    then obtain t where "a = ''Bearer '' @ t" unfolding startsWith_iff ..
    with Some True show ?thesis by (auto simp add: bearer_token_def)
  next
    case False
    with Some show ?thesis
      by (auto simp add: bearer_token_def startsWith_iff simp del: append.simps)
  qed
qed

lemma middleware_Next:
  assumes "middleware V secret key hs = (Next hs', key')"
  shows "\<exists>tok k p. hs ''Authorization'' = Some (''Bearer '' @ tok) \<and> tok \<noteq> [] \<and> V tok k = Inr p
     \<and> hs' = hs(''X-User-Id'' \<mapsto> userId p, ''X-User-BadgeId'' \<mapsto> badgeId p,
                 ''X-User-IsAdmin'' \<mapsto> String_of_bool (isAdmin p))"
proof -
  from assms obtain tok k p where "bearer_token hs = Some tok" "tok \<noteq> []" "V tok k = Inr p"
    "hs' = hs(''X-User-Id'' \<mapsto> userId p, ''X-User-BadgeId'' \<mapsto> badgeId p,
                 ''X-User-IsAdmin'' \<mapsto> String_of_bool (isAdmin p))"
    by (auto simp add: middleware_def Let_def falsy_def Headers_set_def catch_error_def
        split: option.splits if_splits sum.splits)
  with bearer_token_Some [of hs tok] show ?thesis by blast
qed

lemma bearer_token_falsy:
  "falsy (bearer_token hs) = (\<not> (\<exists>tok. tok \<noteq> [] \<and> hs ''Authorization'' = Some (''Bearer '' @ tok)))"
proof -
  have "falsy (bearer_token hs) = (\<not> (\<exists>tok. bearer_token hs = Some tok \<and> tok \<noteq> []))"
    by (cases "bearer_token hs") simp_all
  with bearer_token_Some [of hs] show ?thesis by metis
qed

lemma orderByClause_allowed:
  assumes "query req ''sortBy'' = Some sortBy" and "sortBy \<in> set allowedSortByFields"
    and "query req ''sortOrder'' = Some sortOrder" and "sortOrder = ''asc'' \<or> sortOrder = ''desc''"
  shows "orderByClause_of req = (sortBy, sortOrder)"
  using assms by (auto simp add: orderByClause_of_def or_default_def allowedSortByFields_def)

lemma orderByClause_fallback:
  assumes "or_default (query req ''sortBy'') ''reportedAt'' \<notin> set allowedSortByFields
     \<or> or_default (query req ''sortOrder'') ''desc'' \<notin> {''asc'', ''desc''}"
  shows "orderByClause_of req = (''reportedAt'', ''desc'')"
  using assms by (auto simp add: orderByClause_of_def Let_def)

lemma parseInt_abc [simp]: "parseInt ''abc'' = NaN"
  by (simp add: parseInt_def is_space_def is_digit_def)

lemma Math_ceil_div_ceiling: "Math_ceil_div a b = \<lceil>real_of_int a / real_of_int b\<rceil>"
  by (simp add: Math_ceil_div_def ceiling_divide_eq_div)

lemma parseInt_Num_exact: "parseInt s = Num p \<Longrightarrow> \<bar>p\<bar> \<le> 9007199254740992"
  by (auto simp add: parseInt_def Let_def Number_of_def split: if_splits)

lemma list_numeric:
  assumes "parseInt (or_default (query req ''page'') ''1'') = Num p"
    and "parseInt (or_default (query req ''limit'') ''10'') = Num l"
    and "(max 1 p - 1) * max 1 (min 50 l) \<le> 9007199254740992"
  shows "\<exists>rows pg. GET_incidents S d req = Response 200 (Incident_list rows pg)
     \<and> currentPage pg = max 1 p \<and> limit pg = max 1 (min 50 l)
     \<and> 1 \<le> currentPage pg \<and> 1 \<le> limit pg \<and> limit pg \<le> 50
     \<and> totalCount pg = int (length (filter (matches S (whereClause_of req)) (incidents d)))
     \<and> totalPages pg = \<lceil>real_of_int (totalCount pg) / real_of_int (limit pg)\<rceil>
     \<and> int (length rows) \<le> limit pg"
proof -
  have len: "int (min n (nat (max 1 (min 50 l)))) \<le> max 1 (min 50 l)" for n :: nat
    by linarith
  from parseInt_Num_exact [OF assms(1)]
  have page: "Number_of (max 1 p - 1) = Num (max 1 p - 1)"
    by (simp add: Number_of_def)
  have "0 \<le> (max 1 p - 1) * max 1 (min 50 l)"
    by simp
  with assms(3) have skip: "Number_of ((max 1 p - 1) * max 1 (min 50 l))
      = Num ((max 1 p - 1) * max 1 (min 50 l))"
    by (simp add: Number_of_def)
  from assms(1,2) page skip len show ?thesis
    by (simp add: GET_incidents_def validatedPage_of_def validatedLimit_of_def skip_of_def
        Math_ceil_div_ceiling Let_def)
qed

lemma header_value_String_of_bool [simp]: "header_value (String_of_bool b)"
  by (simp add: header_value_def normalize_value_def HTTP_whitespace_def String_of_bool_def)

section \<open>Facts about the concrete inputs\<close>

lemma last_segment_sample [simp]: "last_segment ''/api/incidents/cincident1'' = ''cincident1''"
  by (simp add: last_segment_def)

lemma sample_find_incident [simp]: "incident_findUnique sample_db ''cincident1'' = Some incident_1"
  by (simp add: incident_findUnique_def sample_db_def incident_1_def)

lemma sample_find_evidence [simp]: "evidence_findUnique sample_db ''cevidence1'' = Some evidence_1"
  by (simp add: evidence_findUnique_def sample_db_def evidence_1_def)

lemma sample_db_simps [simp]:
  "users sample_db = [user_of officer_a, user_of officer_b, user_of admin_c]"
  "incidents sample_db = [incident_1]"
  "evidence sample_db = [evidence_1]"
  by (simp_all add: sample_db_def)

lemma evidence_1_simps [simp]:
  "evidence_id evidence_1 = ''cevidence1''"
  "incidentId evidence_1 = ''cincident1''"
  "addedById evidence_1 = ''cofficerb1''"
  by (simp_all add: evidence_1_def)

lemma incident_1_simps [simp]:
  "incident_id incident_1 = ''cincident1''"
  "reportedById incident_1 = ''cofficera1''"
  "status incident_1 = ''Open''"
  "closingReason incident_1 = None"
  by (simp_all add: incident_1_def)

lemma actor_simps [simp]:
  "userId officer_a = ''cofficera1''" "isAdmin officer_a = False"
  "userId officer_b = ''cofficerb1''" "isAdmin officer_b = False"
  "userId admin_c = ''cadminccc1''" "isAdmin admin_c = True"
  by (simp_all add: officer_a_def officer_b_def admin_c_def)

lemma request_by_simps [simp]:
  "pathname (request_by p path b) = path"
  "body (request_by p path b) = b"
  "headers (request_by p path b) ''X-User-Id'' = Some (userId p)"
  "headers (request_by p path b) ''X-User-IsAdmin'' = Some (String_of_bool (isAdmin p))"
  by (simp_all add: request_by_def headers_for_def)

lemma is_space_simps [simp]:
  "is_space CHR '' ''" "\<not> is_space CHR ''l''"
  by (simp_all add: is_space_def)

lemma trim_late [simp]: "trim ''late note'' = ''late note''"
  by (simp add: trim_def is_space_def)

lemma sample_users [simp]:
  "user_findUnique sample_db ''cofficera1'' = Some (user_of officer_a)"
  "user_findUnique sample_db ''cofficerb1'' = Some (user_of officer_b)"
  by (simp_all add: user_findUnique_def user_of_def)

lemma sample_report_parsed:
  "IncidentCreateSchema sample_lib sample_report =
     Parsed \<lparr>new_occurredAt = ''2025-04-20T10:00:00Z'', new_location = ''Market Center, Old Guntur'',
             new_crimeType = ''Vandalism (Graffiti)'', new_description = ''Paint on the east wall'',
             new_reportedById = ''cofficerb1'', new_status = None\<rparr>"
  by (simp add: IncidentCreateSchema_def sample_report_def and_then_def required_def
      z_string_datetime_min1_def z_string_trim_min1_def z_string_cuid_def sample_lib_def
      trim_def is_space_def)

lemma sample_new_Date [simp]: "new_Date sample_lib ''2025-04-20T10:00:00Z'' = Some 1745143200000"
  by (simp add: sample_lib_def)

lemma sample_POST_incident:
  "POST_incident sample_lib 7000 ''cincident2'' ''ccasenum02'' sample_db
       (request_by officer_a ''/api/incidents'' (Some sample_report))
     = (Response 201 (Incident_json incident_2), sample_db\<lparr>incidents := [incident_1, incident_2]\<rparr>)"
  by (simp add: POST_incident_def sample_report_parsed or_default_def incident_create_def
      incident_1_def incident_2_def)

lemma sample_second_to_last [simp]:
  "second_to_last_segment ''/api/incidents/cincident1/evidence'' = Some ''cincident1''"
  by (simp add: second_to_last_segment_def)

lemma sample_exhibit_parsed:
  "EvidenceCreateSchema sample_exhibit =
     Parsed \<lparr>new_ev_description = ''Paint sample'', new_ev_type = ''Physical Item'',
             new_storageReference = ''bag-7''\<rparr>"
  by (simp add: EvidenceCreateSchema_def sample_exhibit_def and_then_def required_def
      z_string_trim_min1_def z_enum_def evidence_types_def trim_def is_space_def)

lemma sample_POST_evidence:
  "POST_evidence 8000 ''cevidence2'' sample_db
       (request_by officer_a ''/api/incidents/cincident1/evidence'' (Some sample_exhibit))
     = (Response 201 (Evidence_json evidence_2), sample_db\<lparr>evidence := [evidence_1, evidence_2]\<rparr>)"
  by (simp add: POST_evidence_def sample_exhibit_parsed evidence_create_def evidence_2_def)

lemma sample_gate:
  "middleware sample_jwtVerify (Some ''s3cret'') None
       [''Authorization'' \<mapsto> ''Bearer token-cofficera1'']
     = (Next (headers_for officer_a), Some ''s3cret'')"
  by (simp add: middleware_def bearer_token_def startsWith_def sample_jwtVerify_def
      headers_for_def token_of_def officer_a_def Headers_set_def header_value_def
      normalize_value_def HTTP_whitespace_def String_of_bool_def)

section \<open>Evidence deletion\<close>

text \<open>
  Claim C6. A DELETE of an evidence item by an authenticated caller (both path ids and
  the caller's id non-empty) has exactly one of four outcomes, decided in this order:
  404 when no evidence has that id; 400 when the evidence belongs to another incident
  than the one in the path; 403 unless the caller is an admin or the one who added it;
  otherwise 204 with no content, and the evidence is gone from the store. In the first
  three cases the store is unchanged.
\<close>

theorem evidence_delete_outcome:
  assumes "incidentId' \<noteq> []" and "evidenceId \<noteq> []"
    and "headers req ''X-User-Id'' = Some uid" and "uid \<noteq> []"
  shows "DELETE_evidence d req incidentId' evidenceId =
     (case evidence_findUnique d evidenceId of
        None \<Rightarrow> (Response 404 (Message (''Evidence with ID '' @ evidenceId @ '' not found.'')), d)
      | Some ev \<Rightarrow>
          if incidentId ev \<noteq> incidentId' then
            (Response 400 (Message (''Evidence '' @ evidenceId
                @ '' does not belong to incident '' @ incidentId' @ ''.'')), d)
          else if \<not> (headers req ''X-User-IsAdmin'' = Some ''true'' \<or> addedById ev = uid) then
            (Response 403 (Message
                ''Forbidden: You are not authorized to delete this evidence.''), d)
          else
            (Response 204 No_content,
             d\<lparr>evidence := filter (\<lambda>y. evidence_id y \<noteq> evidenceId) (evidence d)\<rparr>))
     \<and> (code (fst (DELETE_evidence d req incidentId' evidenceId)) = 204 \<longrightarrow>
          evidence_findUnique (snd (DELETE_evidence d req incidentId' evidenceId)) evidenceId = None)"
proof (cases "evidence_findUnique d evidenceId")
  case None
  with assms show ?thesis by (simp add: DELETE_evidence_def)
next
  case (Some ev)
  with assms show ?thesis
    by (auto simp add: DELETE_evidence_def evidence_delete_found evidence_findUnique_def find_filter_neq)
qed

theorem evidence_delete_outcome_witness:
  "DELETE_evidence sample_db (request_by officer_b ''/api/incidents/cincident1/evidence/cevidence1'' None)
      ''cincident1'' ''cevidence1''
     = (Response 204 No_content, sample_db\<lparr>evidence := []\<rparr>)
   \<and> DELETE_evidence sample_db (request_by officer_a ''/api/incidents/cincident1/evidence/cevidence1'' None)
      ''cincident1'' ''cevidence1''
     = (Response 403 (Message ''Forbidden: You are not authorized to delete this evidence.''), sample_db)"
  using evidence_delete_outcome [of "''cincident1''" "''cevidence1''"
      "request_by officer_b ''/api/incidents/cincident1/evidence/cevidence1'' None" "''cofficerb1''" sample_db]
    evidence_delete_outcome [of "''cincident1''" "''cevidence1''"
      "request_by officer_a ''/api/incidents/cincident1/evidence/cevidence1'' None" "''cofficera1''" sample_db]
  by simp

section \<open>The owner-or-admin rule\<close>



section \<open>The closing reason after an update\<close>

text \<open>
  Claim C1, as the handler has it. After a successful PATCH the stored closing reason is
  null whenever the patch itself carries a status other than 'Closed', whatever closing
  reason the patch carries and whatever the record held. When the patch carries no
  status (or the status 'Closed'), the record's current status is not consulted: the
  stored closing reason is the one of the patch (trimmed, the empty string and null as
  null), or the previous one when the patch has none.
\<close>

theorem closingReason_after_patch:
  assumes ok: "PATCH_incident L now d req = (Response 200 pl, d')"
    and b: "body req = Some (JObj kvs)"
    and old: "incident_findUnique d (last_segment (pathname req)) = Some old"
  shows "\<exists>new. incident_findUnique d' (last_segment (pathname req)) = Some new
     \<and> pl = Incident_json new
     \<and> (\<forall>s. map_of kvs ''status'' = Some (JStr s) \<and> s \<noteq> ''Closed'' \<longrightarrow> closingReason new = None)
     \<and> (map_of kvs ''status'' = None \<or> map_of kvs ''status'' = Some (JStr ''Closed'') \<longrightarrow>
          closingReason new =
            (case map_of kvs ''closingReason'' of
               None \<Rightarrow> closingReason old
             | Some (JStr r) \<Rightarrow> if trim r = [] then None else Some (trim r)
             | Some _ \<Rightarrow> None))"
proof -
  from PATCH_incident_200_stored [OF ok] old b obtain v where
    v: "IncidentUpdateSchema L (JObj kvs) = Parsed v"
    and pl: "pl = Incident_json (apply_update now (updateData_of v) old)"
    and new: "incident_findUnique d' (last_segment (pathname req))
         = Some (apply_update now (updateData_of v) old)"
    by auto
  from IncidentUpdateSchema_Parsed [OF v] have
    st: "optional (z_enum status_values) (map_of kvs ''status'') = Parsed (upd_status v)"
    and cr: "optional z_string_trim_nullable (map_of kvs ''closingReason'') = Parsed (upd_closingReason v)"
    by auto
  let ?new = "apply_update now (updateData_of v) old"
  have 1: "closingReason ?new = None" if "map_of kvs ''status'' = Some (JStr s)" "s \<noteq> ''Closed''" for s
  proof -
    from st that have "upd_status v = Some s" "s \<in> set status_values"
      by (auto simp add: optional_def z_enum_def split: if_splits)
    with that status_values_nonempty [of s] show ?thesis
      by (simp add: closingReason_apply_update updateData_of_def Let_def)
  qed
  have 2: "closingReason ?new =
            (case map_of kvs ''closingReason'' of
               None \<Rightarrow> closingReason old
             | Some (JStr r) \<Rightarrow> if trim r = [] then None else Some (trim r)
             | Some _ \<Rightarrow> None)"
    if "map_of kvs ''status'' = None \<or> map_of kvs ''status'' = Some (JStr ''Closed'')"
  proof -
    from st that have s: "upd_status v = None \<or> upd_status v = Some ''Closed''"
      by (auto simp add: optional_def z_enum_def split: if_splits)
    show ?thesis
    proof (cases "map_of kvs ''closingReason''")
      case None
      with cr have "upd_closingReason v = None" by simp
      with s None show ?thesis
        by (auto simp add: closingReason_apply_update updateData_of_def Let_def)
    next
      case (Some j)
      with cr obtain r where r: "upd_closingReason v = Some r" "z_string_trim_nullable j = Parsed r"
        using optional_Some_Parsed [of z_string_trim_nullable j "upd_closingReason v"] by auto
      from z_string_trim_nullable_Parsed [OF r(2)] r(1) s Some show ?thesis
        by (auto simp add: closingReason_apply_update updateData_of_def Let_def)
    qed
  qed
  from new pl 1 2 show ?thesis by blast
qed

theorem closingReason_after_patch_witness:
  "PATCH_incident sample_lib 5000 sample_db
      (request_by officer_a ''/api/incidents/cincident1''
         (Some (JObj [(''status'', JStr ''Under Investigation''), (''closingReason'', JStr ''late note'')])))
    = (Response 200 (Incident_json (incident_1\<lparr>status := ''Under Investigation'', updatedAt := 5000\<rparr>)),
       sample_db\<lparr>incidents := [incident_1\<lparr>status := ''Under Investigation'', updatedAt := 5000\<rparr>]\<rparr>)
   \<and> (\<exists>new. incident_findUnique (sample_db\<lparr>incidents := [incident_1\<lparr>status := ''Under Investigation'', updatedAt := 5000\<rparr>]\<rparr>) ''cincident1'' = Some new
        \<and> closingReason new = None)"
proof -
  let ?req = "request_by officer_a ''/api/incidents/cincident1''
         (Some (JObj [(''status'', JStr ''Under Investigation''), (''closingReason'', JStr ''late note'')]))"
  let ?d' = "sample_db\<lparr>incidents := [incident_1\<lparr>status := ''Under Investigation'', updatedAt := 5000\<rparr>]\<rparr>"
  have run: "PATCH_incident sample_lib 5000 sample_db ?req
    = (Response 200 (Incident_json (incident_1\<lparr>status := ''Under Investigation'', updatedAt := 5000\<rparr>)), ?d')"
    by (simp add: PATCH_incident_allowed [where uid = "''cofficera1''" and inc = incident_1]
        IncidentUpdateSchema_def and_then_def optional_def z_enum_def status_values_def
        z_string_trim_nullable_def z_coerce_date_def Object_keys_length_def updateData_of_def
        apply_update_def incident_1_def)
  from closingReason_after_patch [OF run, of "[(''status'', JStr ''Under Investigation''), (''closingReason'', JStr ''late note'')]" incident_1]
  have "\<exists>new. incident_findUnique ?d' ''cincident1'' = Some new \<and> closingReason new = None"
    by simp
  with run show ?thesis by blast
qed

text \<open>
  The claim as stated fails: the reporter of an open incident sends a patch with a
  closing reason and no status; the update succeeds, the status is still 'Open' and the
  closing reason is stored.
\<close>

theorem closingReason_counterexample:
  "code (fst (PATCH_incident sample_lib 5000 sample_db
      (request_by officer_a ''/api/incidents/cincident1''
         (Some (JObj [(''closingReason'', JStr ''late note'')]))))) = 200
   \<and> map_option status (incident_findUnique (snd (PATCH_incident sample_lib 5000 sample_db
      (request_by officer_a ''/api/incidents/cincident1''
         (Some (JObj [(''closingReason'', JStr ''late note'')]))))) ''cincident1'') = Some ''Open''
   \<and> map_option closingReason (incident_findUnique (snd (PATCH_incident sample_lib 5000 sample_db
      (request_by officer_a ''/api/incidents/cincident1''
         (Some (JObj [(''closingReason'', JStr ''late note'')]))))) ''cincident1'') = Some (Some ''late note'')"
  by (simp add: PATCH_incident_allowed [where uid = "''cofficera1''" and inc = incident_1]
        IncidentUpdateSchema_def and_then_def optional_def z_enum_def status_values_def
        z_string_trim_nullable_def z_coerce_date_def Object_keys_length_def updateData_of_def
        apply_update_def incident_findUnique_def)

section \<open>A patch without fields\<close>

text \<open>
  Claim C8. When a caller who may update an existing incident (an admin or its reporter)
  sends a patch object that has none of the six mutable fields (the empty object, or an
  object with other keys only, which validation drops), the answer is 400 with the
  validation error and the store is unchanged.
\<close>

theorem empty_patch_rejected:
  assumes "headers req ''X-User-Id'' = Some (userId actor)"
    and "headers req ''X-User-IsAdmin'' = Some (String_of_bool (isAdmin actor))"
    and "userId actor \<noteq> []"
    and "last_segment (pathname req) \<noteq> []" and "last_segment (pathname req) \<noteq> ''[id]''"
    and "incident_findUnique d (last_segment (pathname req)) = Some inc"
    and "isAdmin actor \<or> reportedById inc = userId actor"
    and "body req = Some (JObj kvs)"
    and "\<forall>k \<in> set [''occurredAt'', ''location'', ''crimeType'', ''description'', ''status'',
              ''closingReason'']. map_of kvs k = None"
  shows "PATCH_incident L now d req = (Response 400 Invalid_input, d)"
proof -
  from assms(2,7) have "headers req ''X-User-IsAdmin'' = Some ''true'' \<or> reportedById inc = userId actor"
    by auto
  from PATCH_incident_allowed [OF assms(1) assms(3) assms(4) assms(5) assms(6) this, of L now]
    IncidentUpdateSchema_no_fields [OF assms(9), of L] assms(8)
  show ?thesis by simp
qed

theorem empty_patch_rejected_witness:
  "PATCH_incident sample_lib 5000 sample_db
      (request_by officer_a ''/api/incidents/cincident1'' (Some (JObj []))) = (Response 400 Invalid_input, sample_db)
   \<and> PATCH_incident sample_lib 5000 sample_db
      (request_by admin_c ''/api/incidents/cincident1'' (Some (JObj [(''reportedById'', JStr ''cadminccc1'')])))
       = (Response 400 Invalid_input, sample_db)"
  using empty_patch_rejected [of "request_by officer_a ''/api/incidents/cincident1'' (Some (JObj []))"
       officer_a sample_db incident_1 "[]" sample_lib 5000]
    empty_patch_rejected [of "request_by admin_c ''/api/incidents/cincident1'' (Some (JObj [(''reportedById'', JStr ''cadminccc1'')]))"
       admin_c sample_db incident_1 "[(''reportedById'', JStr ''cadminccc1'')]" sample_lib 5000]
  by simp

section \<open>The status of a stored incident\<close>

text \<open>
  Claim C10. The two handlers that write incidents keep every stored status among
  'Open', 'Under Investigation' and 'Closed': if that holds of the store before a POST or
  a PATCH, it holds after. A creation whose body has no status stores 'Open'; a body
  whose status is anything but one of the three strings is answered 400 by POST, and by
  PATCH with an error code, and the store is unchanged.
\<close>

theorem status_always_valid:
  "((\<forall>x \<in> set (incidents d). status x \<in> set status_values) \<longrightarrow>
      (\<forall>x \<in> set (incidents (snd (POST_incident L now newId newCase d req))).
          status x \<in> set status_values)
      \<and> (\<forall>x \<in> set (incidents (snd (PATCH_incident L now d req))).
          status x \<in> set status_values))
   \<and> (\<forall>kvs pl d'. body req = Some (JObj kvs) \<and> map_of kvs ''status'' = None
         \<and> POST_incident L now newId newCase d req = (Response 201 pl, d') \<longrightarrow>
         (\<exists>x. pl = Incident_json x \<and> incidents d' = incidents d @ [x] \<and> status x = ''Open''))
   \<and> (\<forall>kvs j. body req = Some (JObj kvs) \<and> map_of kvs ''status'' = Some j
         \<and> j \<notin> JStr ` set status_values \<longrightarrow>
         POST_incident L now newId newCase d req = (Response 400 Invalid_input, d)
         \<and> code (fst (PATCH_incident L now d req)) \<in> {400, 401, 403, 404}
         \<and> snd (PATCH_incident L now d req) = d)"
proof (intro conjI allI impI ballI)
  fix x
  assume inv: "\<forall>x \<in> set (incidents d). status x \<in> set status_values"
    and x: "x \<in> set (incidents (snd (POST_incident L now newId newCase d req)))"
  from POST_incident_store [of L now newId newCase d req]
  show "status x \<in> set status_values"
  proof
    assume "snd (POST_incident L now newId newCase d req) = d"
    with inv x show ?thesis by simp
  next
    assume "\<exists>pl. POST_incident L now newId newCase d req
        = (Response 201 pl, snd (POST_incident L now newId newCase d req))"
    then obtain pl where "POST_incident L now newId newCase d req
        = (Response 201 pl, snd (POST_incident L now newId newCase d req))" ..
    from POST_incident_201 [OF this] obtain b v y where
      *: "IncidentCreateSchema L b = Parsed v"
         "snd (POST_incident L now newId newCase d req) = d\<lparr>incidents := incidents d @ [y]\<rparr>"
         "status y = or_default (new_status v) ''Open''"
      by blast
    from IncidentCreateSchema_Parsed [OF *(1)] or_default_status
    have "or_default (new_status v) ''Open'' \<in> set status_values" by blast
    with * inv x show ?thesis by auto
  qed
next
  fix x
  assume inv: "\<forall>x \<in> set (incidents d). status x \<in> set status_values"
    and x: "x \<in> set (incidents (snd (PATCH_incident L now d req)))"
  from PATCH_incident_store [of L now d req]
  show "status x \<in> set status_values"
  proof
    assume "snd (PATCH_incident L now d req) = d"
    with inv x show ?thesis by simp
  next
    assume "\<exists>pl. PATCH_incident L now d req = (Response 200 pl, snd (PATCH_incident L now d req))"
    then obtain pl where
      "PATCH_incident L now d req = (Response 200 pl, snd (PATCH_incident L now d req))" ..
    from PATCH_incident_200 [OF this] obtain v b where
      *: "IncidentUpdateSchema L b = Parsed v"
         "snd (PATCH_incident L now d req) = d\<lparr>incidents :=
                 map (\<lambda>y. if incident_id y = last_segment (pathname req)
                          then apply_update now (updateData_of v) y else y) (incidents d)\<rparr>"
      by blast
    from x *(2) inv status_after_update [OF *(1)] show ?thesis
      by (auto split: if_splits)
  qed
next
  fix kvs pl d'
  assume h: "body req = Some (JObj kvs) \<and> map_of kvs ''status'' = None
         \<and> POST_incident L now newId newCase d req = (Response 201 pl, d')"
  then have ok: "POST_incident L now newId newCase d req = (Response 201 pl, d')" by simp
  from POST_incident_201 [OF ok] h obtain v x where
    *: "IncidentCreateSchema L (JObj kvs) = Parsed v" "pl = Incident_json x"
       "d' = d\<lparr>incidents := incidents d @ [x]\<rparr>" "status x = or_default (new_status v) ''Open''"
    by auto
  from IncidentCreateSchema_Parsed [OF *(1)] h have "new_status v = None"
    by simp
  with * show "\<exists>x. pl = Incident_json x \<and> incidents d' = incidents d @ [x] \<and> status x = ''Open''"
    by (simp add: or_default_def)
next
  fix kvs j
  assume h: "body req = Some (JObj kvs) \<and> map_of kvs ''status'' = Some j
         \<and> j \<notin> JStr ` set status_values"
  then show "POST_incident L now newId newCase d req = (Response 400 Invalid_input, d)"
    by (simp add: POST_incident_def IncidentCreateSchema_bad_status)
  from h PATCH_incident_Issue [of req "JObj kvs" L now d] IncidentUpdateSchema_bad_status [of kvs j L]
  show "code (fst (PATCH_incident L now d req)) \<in> {400, 401, 403, 404}"
    and "snd (PATCH_incident L now d req) = d"
    by simp_all
qed

theorem status_always_valid_witness:
  "list_all (\<lambda>x. status x \<in> set status_values) (incidents sample_db)
   \<and> list_all (\<lambda>x. status x \<in> set status_values)
        (incidents (snd (POST_incident sample_lib 7000 ''cincident2'' ''ccasenum02'' sample_db
           (request_by officer_a ''/api/incidents'' (Some sample_report)))))
   \<and> list_all (\<lambda>x. status x \<in> set status_values)
        (incidents (snd (PATCH_incident sample_lib 7000 sample_db
           (request_by officer_a ''/api/incidents'' (Some sample_report)))))
   \<and> status incident_2 = ''Open''
   \<and> POST_incident sample_lib 7000 ''cincident2'' ''ccasenum02'' sample_db
        (request_by officer_a ''/api/incidents/cincident1'' (Some (JObj [(''status'', JStr ''Reopened'')])))
       = (Response 400 Invalid_input, sample_db)
   \<and> PATCH_incident sample_lib 7000 sample_db
        (request_by officer_a ''/api/incidents/cincident1'' (Some (JObj [(''status'', JStr ''Reopened'')])))
       = (Response 400 Invalid_input, sample_db)"
proof -
  let ?post = "request_by officer_a ''/api/incidents'' (Some sample_report)"
  let ?bad = "request_by officer_a ''/api/incidents/cincident1'' (Some (JObj [(''status'', JStr ''Reopened'')]))"
  have inv: "\<forall>x \<in> set (incidents sample_db). status x \<in> set status_values"
    by (simp add: status_values_def)
  have bad: "JStr ''Reopened'' \<notin> JStr ` set status_values"
    by (simp add: status_values_def)
  have obj: "body ?post = Some (JObj [(''occurredAt'', JStr ''2025-04-20T10:00:00Z''),
           (''location'', JStr ''Market Center, Old Guntur''),
           (''crimeType'', JStr ''Vandalism (Graffiti)''),
           (''description'', JStr ''Paint on the east wall''),
           (''reportedById'', JStr ''cofficerb1'')])"
    by (simp add: sample_report_def)
  note a = status_always_valid [of sample_db sample_lib 7000 "''cincident2''" "''ccasenum02''" ?post]
  note b = status_always_valid [of sample_db sample_lib 7000 "''cincident2''" "''ccasenum02''" ?bad]
  from a inv have 1: "\<forall>x \<in> set (incidents (snd (POST_incident sample_lib 7000 ''cincident2'' ''ccasenum02'' sample_db ?post))).
          status x \<in> set status_values"
    and 2: "\<forall>x \<in> set (incidents (snd (PATCH_incident sample_lib 7000 sample_db ?post))).
          status x \<in> set status_values"
    by blast+
  from a obj sample_POST_incident have 3: "status incident_2 = ''Open''"
    by auto
  from b bad have 4: "POST_incident sample_lib 7000 ''cincident2'' ''ccasenum02'' sample_db ?bad
       = (Response 400 Invalid_input, sample_db)"
    and 5: "snd (PATCH_incident sample_lib 7000 sample_db ?bad) = sample_db"
    by auto
  have 6: "fst (PATCH_incident sample_lib 7000 sample_db ?bad) = Response 400 Invalid_input"
    by (simp add: PATCH_incident_allowed [where uid = "''cofficera1''" and inc = incident_1]
        IncidentUpdateSchema_bad_status [OF _ bad])
  from inv 1 2 3 4 5 6 show ?thesis
    by (simp add: list_all_iff prod_eq_iff)
qed

section \<open>The reporter of a new incident\<close>

text \<open>
  Claim C3, as the handler has it. A successful POST stores as \<open>reportedById\<close> the
  value of the \<open>reportedById\<close> key of the request body, which must be the id of an
  existing user; the handler does not read the caller's identity. No PATCH changes the
  \<open>reportedById\<close> of any stored incident.
\<close>

theorem reportedById_from_body:
  "(\<forall>pl d'. POST_incident L now newId newCase d req = (Response 201 pl, d') \<longrightarrow>
      (\<exists>kvs x. body req = Some (JObj kvs)
         \<and> map_of kvs ''reportedById'' = Some (JStr (reportedById x))
         \<and> user_findUnique d (reportedById x) \<noteq> None
         \<and> pl = Incident_json x \<and> incidents d' = incidents d @ [x]))
   \<and> map reportedById (incidents (snd (PATCH_incident L now d req))) = map reportedById (incidents d)"
proof (intro conjI allI impI)
  fix pl d'
  assume "POST_incident L now newId newCase d req = (Response 201 pl, d')"
  from POST_incident_reporter [OF this]
  show "\<exists>kvs x. body req = Some (JObj kvs)
         \<and> map_of kvs ''reportedById'' = Some (JStr (reportedById x))
         \<and> user_findUnique d (reportedById x) \<noteq> None
         \<and> pl = Incident_json x \<and> incidents d' = incidents d @ [x]" .
qed (rule PATCH_incident_reportedById)

theorem reportedById_from_body_witness:
  "POST_incident sample_lib 7000 ''cincident2'' ''ccasenum02'' sample_db
       (request_by officer_a ''/api/incidents'' (Some sample_report))
     = (Response 201 (Incident_json incident_2), sample_db\<lparr>incidents := [incident_1, incident_2]\<rparr>)
   \<and> map_of [(''occurredAt'', JStr ''2025-04-20T10:00:00Z''),
           (''location'', JStr ''Market Center, Old Guntur''),
           (''crimeType'', JStr ''Vandalism (Graffiti)''),
           (''description'', JStr ''Paint on the east wall''),
           (''reportedById'', JStr ''cofficerb1'')] ''reportedById'' = Some (JStr (reportedById incident_2))"
proof -
  let ?post = "request_by officer_a ''/api/incidents'' (Some sample_report)"
  from reportedById_from_body [of sample_lib 7000 "''cincident2''" "''ccasenum02''" sample_db ?post]
    sample_POST_incident
  obtain kvs x where "body ?post = Some (JObj kvs)"
    "map_of kvs ''reportedById'' = Some (JStr (reportedById x))" "Incident_json incident_2 = Incident_json x"
    by blast
  then have "map_of [(''occurredAt'', JStr ''2025-04-20T10:00:00Z''),
           (''location'', JStr ''Market Center, Old Guntur''),
           (''crimeType'', JStr ''Vandalism (Graffiti)''),
           (''description'', JStr ''Paint on the east wall''),
           (''reportedById'', JStr ''cofficerb1'')] ''reportedById'' = Some (JStr (reportedById incident_2))"
    by (simp add: sample_report_def)
  with sample_POST_incident show ?thesis by blast
qed

text \<open>
  The claim as stated fails: caller \<open>cofficera1\<close> posts a report whose body names
  \<open>cofficerb1\<close>; the incident is created (201) with \<open>cofficerb1\<close> as its reporter.
\<close>

theorem reportedById_counterexample:
  "headers (request_by officer_a ''/api/incidents'' (Some sample_report)) ''X-User-Id''
     = Some ''cofficera1''
   \<and> code (fst (POST_incident sample_lib 7000 ''cincident2'' ''ccasenum02'' sample_db
       (request_by officer_a ''/api/incidents'' (Some sample_report)))) = 201
   \<and> map_option reportedById (incident_findUnique
        (snd (POST_incident sample_lib 7000 ''cincident2'' ''ccasenum02'' sample_db
           (request_by officer_a ''/api/incidents'' (Some sample_report)))) ''cincident2'')
     = Some ''cofficerb1''"
  by (simp add: sample_POST_incident incident_findUnique_def incident_2_def)

section \<open>The adder of new evidence\<close>

text \<open>
  Claim C9. Whatever the body of a POST of evidence holds, when the evidence is created
  (201) its \<open>addedById\<close> is the value of the request's \<open>X-User-Id\<close> header; and when
  those headers are the ones the gate passed on, that value is the \<open>userId\<close> of the
  payload of the verified token. By contrast a created incident takes its
  \<open>reportedById\<close> from the request body.
\<close>

theorem evidence_adder_is_caller:
  "(\<forall>pl d'. POST_evidence now newId d req = (Response 201 pl, d') \<longrightarrow>
      (\<exists>e. pl = Evidence_json e \<and> evidence d' = evidence d @ [e]
         \<and> headers req ''X-User-Id'' = Some (addedById e)
         \<and> (\<forall>hs key'. middleware V secret key hs = (Next (headers req), key') \<longrightarrow>
               (\<exists>tok k p. hs ''Authorization'' = Some (''Bearer '' @ tok) \<and> V tok k = Inr p
                  \<and> addedById e = userId p))))
   \<and> (\<forall>pl d'. POST_incident L now newId' newCase d req = (Response 201 pl, d') \<longrightarrow>
        (\<exists>kvs x. body req = Some (JObj kvs) \<and> pl = Incident_json x
           \<and> map_of kvs ''reportedById'' = Some (JStr (reportedById x))))"
proof (intro conjI allI impI)
  fix pl d'
  assume "POST_evidence now newId d req = (Response 201 pl, d')"
  from POST_evidence_201 [OF this] obtain e where
    e: "pl = Evidence_json e" "evidence d' = evidence d @ [e]"
       "headers req ''X-User-Id'' = Some (addedById e)"
    by blast
  have "\<exists>tok k p. hs ''Authorization'' = Some (''Bearer '' @ tok) \<and> V tok k = Inr p
                  \<and> addedById e = userId p"
    if "middleware V secret key hs = (Next (headers req), key')" for hs key'
  proof -
    from middleware_Next [OF that] obtain tok k p where
      *: "hs ''Authorization'' = Some (''Bearer '' @ tok)" "V tok k = Inr p"
         "headers req = hs(''X-User-Id'' \<mapsto> userId p, ''X-User-BadgeId'' \<mapsto> badgeId p,
                 ''X-User-IsAdmin'' \<mapsto> String_of_bool (isAdmin p))"
      by blast
    from *(3) e(3) have "addedById e = userId p" by simp
    with * show ?thesis by blast
  qed
  with e show "\<exists>e. pl = Evidence_json e \<and> evidence d' = evidence d @ [e]
         \<and> headers req ''X-User-Id'' = Some (addedById e)
         \<and> (\<forall>hs key'. middleware V secret key hs = (Next (headers req), key') \<longrightarrow>
               (\<exists>tok k p. hs ''Authorization'' = Some (''Bearer '' @ tok) \<and> V tok k = Inr p
                  \<and> addedById e = userId p))"
    by blast
next
  fix pl d'
  assume "POST_incident L now newId' newCase d req = (Response 201 pl, d')"
  from POST_incident_reporter [OF this]
  show "\<exists>kvs x. body req = Some (JObj kvs) \<and> pl = Incident_json x
           \<and> map_of kvs ''reportedById'' = Some (JStr (reportedById x))"
    by blast
qed

theorem evidence_adder_is_caller_witness:
  "POST_evidence 8000 ''cevidence2'' sample_db
       (request_by officer_a ''/api/incidents/cincident1/evidence'' (Some sample_exhibit))
     = (Response 201 (Evidence_json evidence_2), sample_db\<lparr>evidence := [evidence_1, evidence_2]\<rparr>)
   \<and> middleware sample_jwtVerify (Some ''s3cret'') None
        [''Authorization'' \<mapsto> ''Bearer token-cofficera1'']
     = (Next (headers (request_by officer_a ''/api/incidents/cincident1/evidence''
           (Some sample_exhibit))), Some ''s3cret'')
   \<and> headers (request_by officer_a ''/api/incidents/cincident1/evidence'' (Some sample_exhibit))
        ''X-User-Id'' = Some (addedById evidence_2)
   \<and> (\<exists>tok k p. sample_jwtVerify tok k = Inr p \<and> addedById evidence_2 = userId p)"
proof -
  let ?req = "request_by officer_a ''/api/incidents/cincident1/evidence'' (Some sample_exhibit)"
  have gate: "middleware sample_jwtVerify (Some ''s3cret'') None
        [''Authorization'' \<mapsto> ''Bearer token-cofficera1''] = (Next (headers ?req), Some ''s3cret'')"
    by (simp add: sample_gate request_by_def)
  from evidence_adder_is_caller [of 8000 "''cevidence2''" sample_db ?req sample_jwtVerify
      "Some ''s3cret''" None] sample_POST_evidence
  obtain e where e: "Evidence_json evidence_2 = Evidence_json e"
    "headers ?req ''X-User-Id'' = Some (addedById e)"
    "\<forall>hs key'. middleware sample_jwtVerify (Some ''s3cret'') None hs = (Next (headers ?req), key') \<longrightarrow>
       (\<exists>tok k p. hs ''Authorization'' = Some (''Bearer '' @ tok) \<and> sample_jwtVerify tok k = Inr p
          \<and> addedById e = userId p)"
    by blast
  from e(1) have [simp]: "e = evidence_2" by simp
  from e(3) [rule_format, OF gate]
  have "\<exists>tok k p. sample_jwtVerify tok k = Inr p \<and> addedById evidence_2 = userId p"
    by auto
  with e(2) gate sample_POST_evidence show ?thesis by simp
qed

section \<open>The access gate\<close>

text \<open>
  What the gate answers, case by case. Without a non-empty bearer token: 401
  "Authentication required.". With one and no secret configured: 500. With a secret,
  a token the verification rejects: 401, the message chosen by the error's code alone
  ("Token has expired." for \<open>ERR_JWT_EXPIRED\<close>, "Invalid token (verification failed)."
  for another code that starts with \<open>ERR_JWT\<close>, "Token processing failed." for
  \<open>ERR_JOSE_GENERIC\<close>, "Invalid or expired token." for anything else). A token that
  verifies: the request proceeds with the three headers set when the user id and the
  badge id are values a header takes, and is answered 401 "Invalid or expired token."
  when one is not.
\<close>

lemma gate_outcomes:
  "(\<not> (\<exists>tok. tok \<noteq> [] \<and> hs ''Authorization'' = Some (''Bearer '' @ tok)) \<longrightarrow>
      fst (middleware V secret key hs)
        = Reply (Response 401 (Message ''Authentication required.'')))
   \<and> (\<forall>tok. tok \<noteq> [] \<and> hs ''Authorization'' = Some (''Bearer '' @ tok) \<longrightarrow>
        (key = None \<and> falsy secret \<longrightarrow>
           fst (middleware V secret key hs)
             = Reply (Response 500 (Message ''Internal server configuration error.'')))
        \<and> (\<forall>s. secret = Some s \<and> s \<noteq> [] \<and> (key = None \<or> key = Some s) \<longrightarrow>
              middleware V secret key hs =
                (case V tok s of
                   Inl error_code \<Rightarrow>
                     Reply (Response 401 (Message
                       (if error_code = Some ''ERR_JWT_EXPIRED'' then ''Token has expired.''
                        else if \<exists>rest. error_code = Some (''ERR_JWT'' @ rest)
                          then ''Invalid token (verification failed).''
                        else if error_code = Some ''ERR_JOSE_GENERIC''
                          then ''Token processing failed.''
                        else ''Invalid or expired token.'')))
                 | Inr payload \<Rightarrow>
                     if header_value (userId payload) \<and> header_value (badgeId payload)
                     then Next (hs(''X-User-Id'' \<mapsto> userId payload,
                                   ''X-User-BadgeId'' \<mapsto> badgeId payload,
                                   ''X-User-IsAdmin'' \<mapsto> String_of_bool (isAdmin payload)))
                     else Reply (Response 401 (Message ''Invalid or expired token.'')),
                 Some s)))"
proof (intro conjI allI impI)
  assume "\<not> (\<exists>tok. tok \<noteq> [] \<and> hs ''Authorization'' = Some (''Bearer '' @ tok))"
  then have "falsy (bearer_token hs)" by (simp add: bearer_token_falsy)
  then show "fst (middleware V secret key hs)
        = Reply (Response 401 (Message ''Authentication required.''))"
    by (simp add: middleware_def Let_def)
next
  fix tok
  assume "tok \<noteq> [] \<and> hs ''Authorization'' = Some (''Bearer '' @ tok)"
  with bearer_token_Some [of hs tok] have t: "bearer_token hs = Some tok" "tok \<noteq> []" by simp_all
  show "fst (middleware V secret key hs)
             = Reply (Response 500 (Message ''Internal server configuration error.''))"
    if "key = None \<and> falsy secret"
    using that t by (simp add: middleware_def Let_def)
  show "middleware V secret key hs =
                (case V tok s of
                   Inl error_code \<Rightarrow>
                     Reply (Response 401 (Message
                       (if error_code = Some ''ERR_JWT_EXPIRED'' then ''Token has expired.''
                        else if \<exists>rest. error_code = Some (''ERR_JWT'' @ rest)
                          then ''Invalid token (verification failed).''
                        else if error_code = Some ''ERR_JOSE_GENERIC''
                          then ''Token processing failed.''
                        else ''Invalid or expired token.'')))
                 | Inr payload \<Rightarrow>
                     if header_value (userId payload) \<and> header_value (badgeId payload)
                     then Next (hs(''X-User-Id'' \<mapsto> userId payload,
                                   ''X-User-BadgeId'' \<mapsto> badgeId payload,
                                   ''X-User-IsAdmin'' \<mapsto> String_of_bool (isAdmin payload)))
                     else Reply (Response 401 (Message ''Invalid or expired token.'')),
                 Some s)"
    if "secret = Some s \<and> s \<noteq> [] \<and> (key = None \<or> key = Some s)" for s
  proof (cases "V tok s")
    case (Inl error_code)
    have "verification_message error_code =
        (if error_code = Some ''ERR_JWT_EXPIRED'' then ''Token has expired.''
         else if \<exists>rest. error_code = Some (''ERR_JWT'' @ rest)
           then ''Invalid token (verification failed).''
         else if error_code = Some ''ERR_JOSE_GENERIC'' then ''Token processing failed.''
         else ''Invalid or expired token.'')"
      by (cases error_code) (auto simp add: verification_message_def startsWith_iff)
    moreover from Inl that t have "middleware V secret key hs
        = (Reply (Response 401 (Message (verification_message error_code))), Some s)"
      by (auto simp add: middleware_def Let_def catch_error_def)
    ultimately show ?thesis using Inl by simp
  next
    case (Inr payload)
    with that t show ?thesis
      by (auto simp add: middleware_def Let_def catch_error_def Headers_set_def
          verification_message_def)
  qed
qed

lemma gate_samples:
  "fst (middleware sample_jwtVerify (Some ''s3cret'') None Map.empty)
      = Reply (Response 401 (Message ''Authentication required.''))"
  "fst (middleware sample_jwtVerify None None [''Authorization'' \<mapsto> ''Bearer token-cofficera1''])
      = Reply (Response 500 (Message ''Internal server configuration error.''))"
  "middleware sample_jwtVerify (Some ''s3cret'') None [''Authorization'' \<mapsto> ''Bearer token-old'']
      = (Reply (Response 401 (Message ''Token has expired.'')), Some ''s3cret'')"
  "middleware sample_jwtVerify (Some ''s3cret'') None [''Authorization'' \<mapsto> ''Bearer garbage'']
      = (Reply (Response 401 (Message ''Invalid or expired token.'')), Some ''s3cret'')"
  by (simp_all add: middleware_def bearer_token_def startsWith_def sample_jwtVerify_def
      token_of_def officer_a_def officer_b_def admin_c_def officer_n_def login_payload_def
      catch_error_def verification_message_def)

text \<open>
  Claim C7, at the input where the gate departs from it. The sign-up schema takes a
  badge id with a line break inside, and the login route signs it into the token. The
  token verifies, yet the request does not proceed: writing the badge id into
  \<open>X-User-BadgeId\<close> throws inside the \<open>try\<close>, and the \<open>catch\<close> written for
  verification errors answers 401 "Invalid or expired token.".
\<close>

theorem verified_token_answered_401:
  "CreateUserSchema sample_signup
     = Parsed \<lparr>new_badgeId = user_badgeId officer_n, new_name = ''Officer N'',
               new_password = ''secret1''\<rparr>
   \<and> sample_jwtVerify ''token-cofficern1'' ''s3cret'' = Inr (login_payload officer_n)
   \<and> middleware sample_jwtVerify (Some ''s3cret'') None
        [''Authorization'' \<mapsto> ''Bearer token-cofficern1'']
      = (Reply (Response 401 (Message ''Invalid or expired token.'')), Some ''s3cret'')"
proof -
  have signup: "CreateUserSchema sample_signup
     = Parsed \<lparr>new_badgeId = user_badgeId officer_n, new_name = ''Officer N'',
               new_password = ''secret1''\<rparr>"
    by (simp add: CreateUserSchema_def sample_signup_def officer_n_def and_then_def required_def
        z_string_trim_min1_def z_string_min6_def trim_def is_space_def)
  have verify: "sample_jwtVerify ''token-cofficern1'' ''s3cret'' = Inr (login_payload officer_n)"
    by (simp add: sample_jwtVerify_def token_of_def officer_a_def officer_b_def admin_c_def
        officer_n_def login_payload_def)
  have refused: "\<not> header_value (badgeId (login_payload officer_n))"
    by (simp add: header_value_def normalize_value_def HTTP_whitespace_def login_payload_def
        officer_n_def)
  have taken: "header_value (userId (login_payload officer_n))"
    by (simp add: header_value_def normalize_value_def HTTP_whitespace_def login_payload_def
        officer_n_def)
  have "middleware sample_jwtVerify (Some ''s3cret'') None
        [''Authorization'' \<mapsto> ''Bearer token-cofficern1'']
      = (Reply (Response 401 (Message ''Invalid or expired token.'')), Some ''s3cret'')"
    using verify refused taken
    by (simp add: middleware_def bearer_token_def startsWith_def Headers_set_def catch_error_def
        verification_message_def)
  with signup verify show ?thesis by blast
qed

section \<open>Sorting and paging the incident list\<close>

text \<open>
  Claim C4, at the input where the handler departs from it: \<open>caseNumber\<close> is not in
  the handler's list of sort fields, so a request to sort by \<open>caseNumber\<close> ascending
  is ordered by \<open>reportedAt\<close> descending. (For the five fields that are in the list
  the pair is applied as given: \<open>orderByClause_allowed\<close>.)
\<close>

theorem sort_by_caseNumber_falls_back:
  "orderByClause_of (list_request [(''sortBy'', ''caseNumber''), (''sortOrder'', ''asc'')])
     = (''reportedAt'', ''desc'')
   \<and> ''caseNumber'' \<notin> set allowedSortByFields"
  by (simp add: orderByClause_of_def list_request_def or_default_def allowedSortByFields_def)

text \<open>
  Claim C5, at the input where the handler departs from it: a \<open>page\<close> or \<open>limit\<close>
  that does not start with a number parses to NaN, which passes through \<open>Math.max\<close>
  and \<open>Math.min\<close>; the effective page or limit is then NaN, and so is the number of
  rows to skip. (When both parse to integers a double holds exactly, and the number of
  rows to skip is one too, the bounds and the pagination data are as claimed:
  \<open>list_numeric\<close>.)
\<close>

theorem page_not_a_number:
  "validatedPage_of (list_request [(''page'', ''abc'')]) = NaN
   \<and> validatedLimit_of (list_request [(''limit'', ''abc'')]) = NaN
   \<and> skip_of (list_request [(''page'', ''abc'')]) = NaN"
  by (simp add: validatedPage_of_def validatedLimit_of_def skip_of_def list_request_def
      or_default_def)

end
